theory Spec2Isabelle
  imports Complex_Main
begin

section \<open>The Epoch Zero simulation core\<close>

text \<open>
  A shallow embedding of \<^verbatim>\<open>mothe_simulation_core.py\<close> and of the loop of
  \<^verbatim>\<open>streamlit_app.py\<close> that drives it.

  Conventions of the embedding.
  \<^item> A Python \<^verbatim>\<open>float\<close> is a \<^typ>\<open>real\<close>: arithmetic is exact, the rounding of
    binary floating point is not part of the model. \<^verbatim>\<open>round(x, 6)\<close> is modelled exactly
    (nearest multiple of \<open>10\<^sup>-\<^sup>6\<close>, ties to even).
  \<^item> The module \<^verbatim>\<open>random\<close> is an input: every call of \<^verbatim>\<open>random.uniform\<close>,
    \<^verbatim>\<open>random.randint\<close> and \<^verbatim>\<open>random.choice\<close> made during one tick takes its result
    from a record of samples, and the predicates \<open>valid_*\<close> say which results the
    library can give.
  \<^item> The module-level names \<^verbatim>\<open>GRID_NODES\<close> and \<^verbatim>\<open>SIM_INTERVAL_SECONDS\<close>, which the
    functions read when they are called, are the fields of a \<open>config\<close> that every
    function takes; \<open>module_config\<close> holds the values the module assigns.
  \<^item> The dictionary \<^verbatim>\<open>current_results\<close> is a record whose fields are options:
    \<open>None\<close> is a missing key, and reading a missing key is a \<open>KeyError\<close>.
  \<^item> A log line is kept as the tag of its format string together with the values
    interpolated into it; how a number is printed is not modelled.
\<close>

subsection \<open>Configuration and errors\<close>

record config =
  GRID_NODES :: "string list"
  SIM_INTERVAL_SECONDS :: real

definition module_config :: config where
  "module_config =
     \<lparr>GRID_NODES = [''RegionAlpha'', ''RegionBeta'', ''RegionGamma''],
      SIM_INTERVAL_SECONDS = 1\<rparr>"

datatype error = ZeroDivisionError | KeyError string

definition and_then :: "error + 'a \<Rightarrow> ('a \<Rightarrow> error + 'b) \<Rightarrow> error + 'b" where
  "and_then m f = (case m of Inl e \<Rightarrow> Inl e | Inr x \<Rightarrow> f x)"

text \<open>\<^verbatim>\<open>d[key]\<close>: the value stored under a key, or \<^verbatim>\<open>KeyError\<close>.\<close>

definition item :: "string \<Rightarrow> 'a option \<Rightarrow> error + 'a" where
  "item key v = (case v of None \<Rightarrow> Inl (KeyError key) | Some x \<Rightarrow> Inr x)"

text \<open>\<^verbatim>\<open>if key not in d: d[key] = initial\<close>.\<close>

definition if_missing :: "'a option \<Rightarrow> 'a \<Rightarrow> 'a option" where
  "if_missing v initial = (case v of None \<Rightarrow> Some initial | Some x \<Rightarrow> Some x)"

subsection \<open>Numbers\<close>

definition round_half_even :: "real \<Rightarrow> int" where
  "round_half_even x =
     (let f = \<lfloor>x\<rfloor>; r = x - of_int f
      in if r < 1 / 2 then f else if 1 / 2 < r then f + 1 else if even f then f else f + 1)"

text \<open>\<^verbatim>\<open>round(x, ndigits)\<close> for a non-negative number of digits.\<close>

definition py_round :: "real \<Rightarrow> nat \<Rightarrow> real" where
  "py_round x ndigits = of_int (round_half_even (x * 10 ^ ndigits)) / 10 ^ ndigits"

text \<open>\<^verbatim>\<open>s.upper()\<close> on ASCII text.\<close>

definition upper :: "string \<Rightarrow> string" where
  "upper s =
     map (\<lambda>c. if (97::nat) \<le> of_char c \<and> of_char c \<le> (122::nat)
              then char_of (of_char c - (32::nat)) else c) s"

subsection \<open>Random samples\<close>

text \<open>The three draws of one call of \<^verbatim>\<open>read_sensors\<close>.\<close>

record sensor_random =
  irradiance_sample :: real
  temperature_sample :: real
  wear_sample :: real

text \<open>The draws of one iteration of the loop over the regions.\<close>

record region_random =
  water_units_sample :: int
  meds_index :: nat
  findings_index :: nat
  seed_sample :: int
  rep_sample :: real

text \<open>
  All draws of one tick. The \<open>i\<close>-th solar node and the \<open>i\<close>-th region have their own
  draws.
\<close>

record tick_random =
  sensor_samples :: "nat \<Rightarrow> sensor_random"
  region_samples :: "nat \<Rightarrow> region_random"
  threat_sample :: real
  gold_sample :: real
  oil_sample :: real
  nuclear_index :: nat

text \<open>\<^verbatim>\<open>random.choice(seq)\<close> returns \<^verbatim>\<open>seq[i]\<close> for an index below \<^verbatim>\<open>len(seq)\<close>.\<close>

definition random_choice :: "'a list \<Rightarrow> nat \<Rightarrow> 'a" where
  "random_choice seq i = seq ! i"

definition meds_choices :: "string list" where
  "meds_choices = [''antivirals'', ''antibiotics'', ''vaccines'']"

definition findings_choices :: "string list" where
  "findings_choices =
     [''Gold Vein Located'', ''Tectonic Stress Point Detected'',
      ''Uranium Trace Signature'', ''No Anomaly'']"

definition nuclear_choices :: "int list" where
  "nuclear_choices = [0, 1]"

definition valid_sensor_random :: "sensor_random \<Rightarrow> bool" where
  "valid_sensor_random r \<longleftrightarrow>
     800 \<le> irradiance_sample r \<and> irradiance_sample r \<le> 1200 \<and>
     15 \<le> temperature_sample r \<and> temperature_sample r \<le> 45 \<and>
     0 \<le> wear_sample r \<and> wear_sample r \<le> 0.01"

definition valid_region_random :: "region_random \<Rightarrow> bool" where
  "valid_region_random r \<longleftrightarrow>
     10000 \<le> water_units_sample r \<and> water_units_sample r \<le> 20000 \<and>
     meds_index r < length meds_choices \<and>
     findings_index r < length findings_choices \<and>
     1000 \<le> seed_sample r \<and> seed_sample r \<le> 9999 \<and>
     0.5 \<le> rep_sample r \<and> rep_sample r \<le> 1"

definition valid_tick_random :: "tick_random \<Rightarrow> bool" where
  "valid_tick_random rnd \<longleftrightarrow>
     (\<forall>i. valid_sensor_random (sensor_samples rnd i)) \<and>
     (\<forall>i. valid_region_random (region_samples rnd i)) \<and>
     1000 \<le> threat_sample rnd \<and> threat_sample rnd \<le> 9000 \<and>
     0 \<le> gold_sample rnd \<and> gold_sample rnd \<le> 0.002 \<and>
     0 \<le> oil_sample rnd \<and> oil_sample rnd \<le> 0.003 \<and>
     nuclear_index rnd < length nuclear_choices"

subsection \<open>Solar nodes\<close>

record SolarNodeController =
  node_name :: string
  irradiance :: real
  temperature :: real
  panel_health :: real
  output_power_mwh :: real

definition new_SolarNodeController :: "string \<Rightarrow> SolarNodeController" where
  "new_SolarNodeController name =
     \<lparr>node_name = name, irradiance = 0, temperature = 25, panel_health = 100,
      output_power_mwh = 0\<rparr>"

definition read_sensors :: "sensor_random \<Rightarrow> SolarNodeController \<Rightarrow> SolarNodeController" where
  "read_sensors r self =
     self\<lparr>irradiance := irradiance_sample r,
          temperature := temperature_sample r,
          panel_health := max 80 (panel_health self - wear_sample r)\<rparr>"

definition calibrate_output :: "config \<Rightarrow> SolarNodeController \<Rightarrow> SolarNodeController \<times> real" where
  "calibrate_output cfg self =
     (let base_power = (irradiance self / 1000) * 0.3;
          health_factor = panel_health self / 100;
          temp_factor = max 0.75 (1 - (temperature self - 25) * 0.01);
          out = base_power * health_factor * temp_factor * (SIM_INTERVAL_SECONDS cfg / 3600)
      in (self\<lparr>output_power_mwh := out\<rparr>, out))"

definition generate_energy ::
  "config \<Rightarrow> sensor_random \<Rightarrow> SolarNodeController \<Rightarrow> SolarNodeController \<times> real" where
  "generate_energy cfg r self = calibrate_output cfg (read_sensors r self)"

subsection \<open>Distribution nodes\<close>

record UniversalDistributionNode =
  region_name :: string
  energy_balance :: real

definition new_UniversalDistributionNode :: "string \<Rightarrow> UniversalDistributionNode" where
  "new_UniversalDistributionNode name = \<lparr>region_name = name, energy_balance = 0\<rparr>"

text \<open>The division by \<^verbatim>\<open>len(GRID_NODES)\<close> raises when the list of regions is empty.\<close>

definition balance_and_distribute ::
  "config \<Rightarrow> real \<Rightarrow> UniversalDistributionNode \<Rightarrow> error + UniversalDistributionNode" where
  "balance_and_distribute cfg amount self =
     (if length (GRID_NODES cfg) = 0 then Inl ZeroDivisionError
      else Inr (self\<lparr>energy_balance :=
                  energy_balance self + amount / real (length (GRID_NODES cfg))\<rparr>))"

subsection \<open>The integrity monitor\<close>

datatype AISovereigntyProtocol = AISovereigntyProtocol

fun monitor_grid_integrity :: "AISovereigntyProtocol \<Rightarrow> real \<Rightarrow> bool" where
  "monitor_grid_integrity self threat_level = (if threat_level > 8500 then True else False)"

subsection \<open>Resource and event generators\<close>

definition ai_boring_search_for_gold :: "real \<Rightarrow> real \<Rightarrow> real" where
  "ai_boring_search_for_gold sample minutes = py_round (sample * minutes) 6"

definition ai_boring_search_for_oil :: "real \<Rightarrow> real \<Rightarrow> real" where
  "ai_boring_search_for_oil sample minutes = py_round (sample * minutes) 6"

definition quiet_nuclear_protocol_scan :: "nat \<Rightarrow> real \<Rightarrow> int" where
  "quiet_nuclear_protocol_scan index minutes = random_choice nuclear_choices index"

text \<open>The strings the three event generators return.\<close>

datatype event =
  Supply_chain int string string
  | Orbital_scan string string
  | Sovereign_id int string string real

definition simulate_supply_chain :: "region_random \<Rightarrow> string \<Rightarrow> event" where
  "simulate_supply_chain r region =
     (let water_units = water_units_sample r;
          meds = random_choice meds_choices (meds_index r)
      in Supply_chain water_units meds region)"

definition simulate_orbital_scan :: "region_random \<Rightarrow> string \<Rightarrow> event" where
  "simulate_orbital_scan r region =
     (let findings = random_choice findings_choices (findings_index r)
      in Orbital_scan region findings)"

definition register_sovereign_id :: "region_random \<Rightarrow> string \<Rightarrow> event" where
  "register_sovereign_id r region =
     (let rep_score = py_round (rep_sample r) 2
      in Sovereign_id (seed_sample r) (upper (take 2 region)) region rep_score)"

subsection \<open>The simulation state\<close>

text \<open>
  A \<^verbatim>\<open>datetime\<close>, in seconds; \<^verbatim>\<open>strftime\<close> is part of the printing of a line and is not
  modelled.
\<close>

type_synonym datetime = real

datatype log_line =
  Energy_line datetime real
  | Distribution_line datetime string real
  | Event_line datetime event
  | Alert_line datetime
  | Gold_line datetime real real
  | Oil_line datetime real real
  | Nuclear_line datetime int int

record energy_totals =
  total_mwh :: real

text \<open>
  The keys of \<^verbatim>\<open>current_results\<close>. The last two are written by the driver only.
\<close>

record sim_results =
  solar_nodes :: "SolarNodeController list option"
  distribution_nodes :: "UniversalDistributionNode list option"
  asp :: "AISovereigntyProtocol option"
  energy :: "energy_totals option"
  gold :: "real option"
  oil :: "real option"
  nuclear_signatures :: "int option"
  anomalies :: "log_line list option"
  supply_chain :: "log_line list option"
  orbital :: "log_line list option"
  ids :: "log_line list option"
  bcp_transactions :: "log_line list option"
  logs :: "log_line list option"
  current_sim_time :: "datetime option"
  sim_step_count :: "int option"

text \<open>The empty dictionary.\<close>

definition empty_results :: sim_results where
  "empty_results =
     \<lparr>solar_nodes = None, distribution_nodes = None, asp = None, energy = None,
      gold = None, oil = None, nuclear_signatures = None, anomalies = None,
      supply_chain = None, orbital = None, ids = None, bcp_transactions = None,
      logs = None, current_sim_time = None, sim_step_count = None\<rparr>"

text \<open>\<^verbatim>\<open>current_results[key].append(line)\<close> for the five lists the step appends to.\<close>

definition logs_append :: "log_line \<Rightarrow> sim_results \<Rightarrow> error + sim_results" where
  "logs_append line cr =
     and_then (item ''logs'' (logs cr)) (\<lambda>xs. Inr (cr\<lparr>logs := Some (xs @ [line])\<rparr>))"

definition supply_chain_append :: "log_line \<Rightarrow> sim_results \<Rightarrow> error + sim_results" where
  "supply_chain_append line cr =
     and_then (item ''supply_chain'' (supply_chain cr))
       (\<lambda>xs. Inr (cr\<lparr>supply_chain := Some (xs @ [line])\<rparr>))"

definition orbital_append :: "log_line \<Rightarrow> sim_results \<Rightarrow> error + sim_results" where
  "orbital_append line cr =
     and_then (item ''orbital'' (orbital cr)) (\<lambda>xs. Inr (cr\<lparr>orbital := Some (xs @ [line])\<rparr>))"

definition ids_append :: "log_line \<Rightarrow> sim_results \<Rightarrow> error + sim_results" where
  "ids_append line cr =
     and_then (item ''ids'' (ids cr)) (\<lambda>xs. Inr (cr\<lparr>ids := Some (xs @ [line])\<rparr>))"

definition anomalies_append :: "log_line \<Rightarrow> sim_results \<Rightarrow> error + sim_results" where
  "anomalies_append line cr =
     and_then (item ''anomalies'' (anomalies cr))
       (\<lambda>xs. Inr (cr\<lparr>anomalies := Some (xs @ [line])\<rparr>))"

text \<open>\<^verbatim>\<open>xs[-n:]\<close> for a positive \<open>n\<close>: the last \<open>n\<close> elements, or all of a shorter list.\<close>

definition last_entries :: "nat \<Rightarrow> 'a list \<Rightarrow> 'a list" where
  "last_entries n xs = drop (length xs - n) xs"

subsection \<open>One simulation step\<close>

text \<open>
  \<^verbatim>\<open>[node.generate_energy() for node in solar_nodes]\<close>: each node is updated in place
  and yields its output.
\<close>

definition generate_all ::
  "config \<Rightarrow> (nat \<Rightarrow> sensor_random) \<Rightarrow> SolarNodeController list \<Rightarrow>
     (SolarNodeController \<times> real) list" where
  "generate_all cfg rs nodes =
     map (\<lambda>(i, node). generate_energy cfg (rs i) node) (enumerate 0 nodes)"

text \<open>
  The loop over the distribution nodes (lines 215 to 218). It returns the updated nodes
  and the state with one line logged for each of them.
\<close>

fun distribute_loop ::
  "config \<Rightarrow> datetime \<Rightarrow> real \<Rightarrow> UniversalDistributionNode list \<Rightarrow> sim_results \<Rightarrow>
     error + (UniversalDistributionNode list \<times> sim_results)" where
  "distribute_loop cfg t amount [] cr = Inr ([], cr)"
| "distribute_loop cfg t amount (node # rest) cr =
     (case balance_and_distribute cfg amount node of
        Inl e \<Rightarrow> Inl e
      | Inr node' \<Rightarrow>
          (case logs_append
                  (Distribution_line t (region_name node') (energy_balance node')) cr of
             Inl e \<Rightarrow> Inl e
           | Inr cr' \<Rightarrow>
               (case distribute_loop cfg t amount rest cr' of
                  Inl e \<Rightarrow> Inl e
                | Inr (rest', cr'') \<Rightarrow> Inr (node' # rest', cr''))))"

text \<open>
  The body of the loop over the regions (lines 223 to 236), for one region and the
  draws made for it.
\<close>

definition regional_operations ::
  "datetime \<Rightarrow> region_random \<Rightarrow> string \<Rightarrow> sim_results \<Rightarrow> error + sim_results" where
  "regional_operations t r region cr =
     (let sc_log = simulate_supply_chain r region;
          orb_log = simulate_orbital_scan r region;
          id_log = register_sovereign_id r region
      in and_then (supply_chain_append (Event_line t sc_log) cr) (\<lambda>cr.
         and_then (logs_append (Event_line t sc_log) cr) (\<lambda>cr.
         and_then (orbital_append (Event_line t orb_log) cr) (\<lambda>cr.
         and_then (logs_append (Event_line t orb_log) cr) (\<lambda>cr.
         and_then (ids_append (Event_line t id_log) cr) (\<lambda>cr.
         logs_append (Event_line t id_log) cr))))))"

fun regional_loop ::
  "datetime \<Rightarrow> (nat \<Rightarrow> region_random) \<Rightarrow> nat \<Rightarrow> string list \<Rightarrow> sim_results \<Rightarrow>
     error + sim_results" where
  "regional_loop t rs i [] cr = Inr cr"
| "regional_loop t rs i (region # rest) cr =
     (case regional_operations t (rs i) region cr of
        Inl e \<Rightarrow> Inl e
      | Inr cr' \<Rightarrow> regional_loop t rs (Suc i) rest cr')"

text \<open>Lines 239 to 242.\<close>

definition asp_monitoring ::
  "datetime \<Rightarrow> real \<Rightarrow> AISovereigntyProtocol \<Rightarrow> sim_results \<Rightarrow> error + sim_results" where
  "asp_monitoring t threat asp_obj cr =
     (if monitor_grid_integrity asp_obj threat
      then (let anomaly_msg = Alert_line t
            in and_then (anomalies_append anomaly_msg cr) (logs_append anomaly_msg))
      else Inr cr)"

text \<open>Lines 245 to 256.\<close>

definition resource_searches ::
  "datetime \<Rightarrow> real \<Rightarrow> tick_random \<Rightarrow> sim_results \<Rightarrow> error + sim_results" where
  "resource_searches t sim_interval_seconds rnd cr =
     (let gold_found = ai_boring_search_for_gold (gold_sample rnd) (sim_interval_seconds / 60);
          oil_found = ai_boring_search_for_oil (oil_sample rnd) (sim_interval_seconds / 60);
          nuc_found = quiet_nuclear_protocol_scan (nuclear_index rnd) (sim_interval_seconds / 60)
      in and_then (item ''gold'' (gold cr)) (\<lambda>g.
         let cr = cr\<lparr>gold := Some (g + gold_found)\<rparr>
         in and_then (logs_append (Gold_line t gold_found (g + gold_found)) cr) (\<lambda>cr.
         and_then (item ''oil'' (oil cr)) (\<lambda>b.
         let cr = cr\<lparr>oil := Some (b + oil_found)\<rparr>
         in and_then (logs_append (Oil_line t oil_found (b + oil_found)) cr) (\<lambda>cr.
         and_then (item ''nuclear_signatures'' (nuclear_signatures cr)) (\<lambda>n.
         let cr = cr\<lparr>nuclear_signatures := Some (n + nuc_found)\<rparr>
         in logs_append (Nuclear_line t nuc_found (n + nuc_found)) cr))))))"

text \<open>Lines 175 to 206: the keys that are missing get their first values.\<close>

definition initialize_objects :: "config \<Rightarrow> sim_results \<Rightarrow> sim_results" where
  "initialize_objects cfg cr =
     cr\<lparr>solar_nodes :=
          if_missing (solar_nodes cr) (map new_SolarNodeController (GRID_NODES cfg)),
        distribution_nodes :=
          if_missing (distribution_nodes cr)
            (map new_UniversalDistributionNode (GRID_NODES cfg)),
        asp := if_missing (asp cr) AISovereigntyProtocol\<rparr>"

definition initialize_metrics :: "sim_results \<Rightarrow> sim_results" where
  "initialize_metrics cr =
     cr\<lparr>energy := if_missing (energy cr) \<lparr>total_mwh = 0\<rparr>,
        gold := if_missing (gold cr) 0,
        oil := if_missing (oil cr) 0,
        nuclear_signatures := if_missing (nuclear_signatures cr) 0,
        anomalies := if_missing (anomalies cr) [],
        supply_chain := if_missing (supply_chain cr) [],
        orbital := if_missing (orbital cr) [],
        ids := if_missing (ids cr) [],
        bcp_transactions := if_missing (bcp_transactions cr) [],
        logs := if_missing (logs cr) []\<rparr>"

text \<open>Lines 209 to 211.\<close>

definition generate_and_total ::
  "config \<Rightarrow> datetime \<Rightarrow> tick_random \<Rightarrow> SolarNodeController list \<Rightarrow> sim_results \<Rightarrow>
     error + (real \<times> sim_results)" where
  "generate_and_total cfg t rnd nodes cr =
     (let outs = generate_all cfg (sensor_samples rnd) nodes;
          generated_mwh_this_interval = sum_list (map snd outs);
          cr = cr\<lparr>solar_nodes := Some (map fst outs)\<rparr>
      in and_then (item ''energy'' (energy cr)) (\<lambda>en.
         let cr = cr\<lparr>energy := Some (en\<lparr>total_mwh := total_mwh en + generated_mwh_this_interval\<rparr>)\<rparr>
         in and_then (logs_append (Energy_line t generated_mwh_this_interval) cr) (\<lambda>cr.
         Inr (generated_mwh_this_interval, cr))))"

text \<open>
  Lines 174 to 256: everything \<^verbatim>\<open>run_simulation_step\<close> does before it cuts the list of
  logs.
\<close>

definition simulation_events ::
  "config \<Rightarrow> sim_results \<Rightarrow> datetime \<Rightarrow> real \<Rightarrow> tick_random \<Rightarrow> error + sim_results" where
  "simulation_events cfg current_results current_time sim_interval_seconds rnd =
     (let cr = initialize_objects cfg current_results
      in and_then (item ''solar_nodes'' (solar_nodes cr)) (\<lambda>nodes.
         and_then (item ''distribution_nodes'' (distribution_nodes cr)) (\<lambda>dist.
         and_then (item ''asp'' (asp cr)) (\<lambda>asp_obj.
         let cr = initialize_metrics cr
         in and_then (generate_and_total cfg current_time rnd nodes cr) (\<lambda>(generated, cr).
         and_then (distribute_loop cfg current_time generated dist cr) (\<lambda>(dist', cr).
         let cr = cr\<lparr>distribution_nodes := Some dist'\<rparr>
         in and_then (regional_loop current_time (region_samples rnd) 0 (GRID_NODES cfg) cr) (\<lambda>cr.
         and_then (asp_monitoring current_time (threat_sample rnd) asp_obj cr) (\<lambda>cr.
         resource_searches current_time sim_interval_seconds rnd cr))))))))"

text \<open>Line 260, and the whole step.\<close>

definition keep_last_logs :: "sim_results \<Rightarrow> error + sim_results" where
  "keep_last_logs cr =
     and_then (item ''logs'' (logs cr)) (\<lambda>xs. Inr (cr\<lparr>logs := Some (last_entries 50 xs)\<rparr>))"

definition run_simulation_step ::
  "config \<Rightarrow> sim_results \<Rightarrow> datetime \<Rightarrow> real \<Rightarrow> tick_random \<Rightarrow> error + sim_results" where
  "run_simulation_step cfg current_results current_time sim_interval_seconds rnd =
     and_then (simulation_events cfg current_results current_time sim_interval_seconds rnd)
       keep_last_logs"

subsection \<open>The driver\<close>

text \<open>
  The dictionary \<^verbatim>\<open>streamlit_app.py\<close> starts from (lines 36 to 59), at the time \<open>now\<close>.
\<close>

definition initial_sim_results :: "config \<Rightarrow> datetime \<Rightarrow> sim_results" where
  "initial_sim_results cfg now =
     \<lparr>solar_nodes = Some (map new_SolarNodeController (GRID_NODES cfg)),
      distribution_nodes = Some (map new_UniversalDistributionNode (GRID_NODES cfg)),
      asp = Some AISovereigntyProtocol,
      energy = Some \<lparr>total_mwh = 0\<rparr>,
      gold = Some 0, oil = Some 0, nuclear_signatures = Some 0,
      anomalies = Some [], supply_chain = Some [], orbital = Some [], ids = Some [],
      bcp_transactions = Some [], logs = Some [],
      current_sim_time = Some now, sim_step_count = Some 0\<rparr>"

text \<open>One iteration of the loop (lines 92 to 102).\<close>

definition driver_iteration :: "config \<Rightarrow> tick_random \<Rightarrow> sim_results \<Rightarrow> error + sim_results" where
  "driver_iteration cfg rnd st =
     and_then (item ''current_sim_time'' (current_sim_time st)) (\<lambda>t.
     let sim_time_obj = t + SIM_INTERVAL_SECONDS cfg;
         st = st\<lparr>current_sim_time := Some sim_time_obj\<rparr>
     in and_then (item ''sim_step_count'' (sim_step_count st)) (\<lambda>n.
        let st = st\<lparr>sim_step_count := Some (n + 1)\<rparr>
        in run_simulation_step cfg st sim_time_obj (SIM_INTERVAL_SECONDS cfg) rnd))"

text \<open>The loop run once for each record of draws, stopping at the first error.\<close>

fun run_ticks :: "config \<Rightarrow> tick_random list \<Rightarrow> sim_results \<Rightarrow> error + sim_results" where
  "run_ticks cfg [] st = Inr st"
| "run_ticks cfg (rnd # rest) st =
     (case driver_iteration cfg rnd st of
        Inl e \<Rightarrow> Inl e
      | Inr st' \<Rightarrow> run_ticks cfg rest st')"

text \<open>
  \<^verbatim>\<open>run_simulation_step\<close> called again and again on what it returned, with the time
  and the interval of each call.
\<close>

fun run_steps ::
  "config \<Rightarrow> (datetime \<times> real \<times> tick_random) list \<Rightarrow> sim_results \<Rightarrow> error + sim_results" where
  "run_steps cfg [] cr = Inr cr"
| "run_steps cfg ((t, dt, rnd) # rest) cr =
     (case run_simulation_step cfg cr t dt rnd of
        Inl e \<Rightarrow> Inl e
      | Inr cr' \<Rightarrow> run_steps cfg rest cr')"

section \<open>Quantities the statements speak about\<close>

text \<open>The value under a key, or the value the step would first store there.\<close>

definition value_or :: "'a option \<Rightarrow> 'a \<Rightarrow> 'a" where
  "value_or v initial = (case v of None \<Rightarrow> initial | Some x \<Rightarrow> x)"

definition nodes_before :: "config \<Rightarrow> sim_results \<Rightarrow> SolarNodeController list" where
  "nodes_before cfg cr = value_or (solar_nodes cr) (map new_SolarNodeController (GRID_NODES cfg))"

definition distribution_before :: "config \<Rightarrow> sim_results \<Rightarrow> UniversalDistributionNode list" where
  "distribution_before cfg cr =
     value_or (distribution_nodes cr) (map new_UniversalDistributionNode (GRID_NODES cfg))"

definition total_before :: "sim_results \<Rightarrow> real" where
  "total_before cr = total_mwh (value_or (energy cr) \<lparr>total_mwh = 0\<rparr>)"

text \<open>The energy of one tick: the sum of what the solar nodes generate.\<close>

definition tick_energy :: "config \<Rightarrow> tick_random \<Rightarrow> sim_results \<Rightarrow> real" where
  "tick_energy cfg rnd cr =
     sum_list (map snd (generate_all cfg (sensor_samples rnd) (nodes_before cfg cr)))"

definition credited ::
  "config \<Rightarrow> real \<Rightarrow> UniversalDistributionNode \<Rightarrow> UniversalDistributionNode" where
  "credited cfg amount node =
     node\<lparr>energy_balance := energy_balance node + amount / real (length (GRID_NODES cfg))\<rparr>"

text \<open>The lines one tick appends to the list of logs, in the order it appends them.\<close>

definition distribution_lines ::
  "config \<Rightarrow> datetime \<Rightarrow> real \<Rightarrow> UniversalDistributionNode list \<Rightarrow> log_line list" where
  "distribution_lines cfg t amount nodes =
     map (\<lambda>node. Distribution_line t (region_name node)
                  (energy_balance node + amount / real (length (GRID_NODES cfg)))) nodes"

fun regional_events ::
  "(nat \<Rightarrow> region_random) \<Rightarrow> nat \<Rightarrow> string list \<Rightarrow> (event \<times> event \<times> event) list" where
  "regional_events rs i [] = []"
| "regional_events rs i (region # rest) =
     (simulate_supply_chain (rs i) region, simulate_orbital_scan (rs i) region,
      register_sovereign_id (rs i) region) # regional_events rs (Suc i) rest"

definition regional_lines ::
  "datetime \<Rightarrow> (nat \<Rightarrow> region_random) \<Rightarrow> nat \<Rightarrow> string list \<Rightarrow> log_line list" where
  "regional_lines t rs i regions =
     concat (map (\<lambda>(a, b, c). [Event_line t a, Event_line t b, Event_line t c])
       (regional_events rs i regions))"

definition alert_lines :: "datetime \<Rightarrow> real \<Rightarrow> log_line list" where
  "alert_lines t threat = (if threat > 8500 then [Alert_line t] else [])"

definition resource_lines ::
  "datetime \<Rightarrow> real \<Rightarrow> tick_random \<Rightarrow> sim_results \<Rightarrow> log_line list" where
  "resource_lines t dt rnd cr =
     (let gold_found = ai_boring_search_for_gold (gold_sample rnd) (dt / 60);
          oil_found = ai_boring_search_for_oil (oil_sample rnd) (dt / 60);
          nuc_found = quiet_nuclear_protocol_scan (nuclear_index rnd) (dt / 60)
      in [Gold_line t gold_found (value_or (gold cr) 0 + gold_found),
          Oil_line t oil_found (value_or (oil cr) 0 + oil_found),
          Nuclear_line t nuc_found (value_or (nuclear_signatures cr) 0 + nuc_found)])"

definition tick_lines ::
  "config \<Rightarrow> sim_results \<Rightarrow> datetime \<Rightarrow> real \<Rightarrow> tick_random \<Rightarrow> log_line list" where
  "tick_lines cfg cr t dt rnd =
     Energy_line t (tick_energy cfg rnd cr) #
     distribution_lines cfg t (tick_energy cfg rnd cr) (distribution_before cfg cr) @
     regional_lines t (region_samples rnd) 0 (GRID_NODES cfg) @
     alert_lines t (threat_sample rnd) @
     resource_lines t dt rnd cr"

text \<open>The number of lines of one tick with \<open>r\<close> regions.\<close>

definition lines_per_tick :: "nat \<Rightarrow> tick_random \<Rightarrow> nat" where
  "lines_per_tick r rnd = (if threat_sample rnd > 8500 then 4 * r + 5 else 4 * r + 4)"

text \<open>Every key the step initialises is present.\<close>

definition all_keys_present :: "sim_results \<Rightarrow> bool" where
  "all_keys_present cr \<longleftrightarrow>
     solar_nodes cr \<noteq> None \<and> distribution_nodes cr \<noteq> None \<and> asp cr \<noteq> None \<and>
     energy cr \<noteq> None \<and> gold cr \<noteq> None \<and> oil cr \<noteq> None \<and>
     nuclear_signatures cr \<noteq> None \<and> anomalies cr \<noteq> None \<and> supply_chain cr \<noteq> None \<and>
     orbital cr \<noteq> None \<and> ids cr \<noteq> None \<and> bcp_transactions cr \<noteq> None \<and>
     logs cr \<noteq> None"

text \<open>Concrete draws, and a configuration whose list of regions is empty.\<close>

definition sample_tick :: tick_random where
  "sample_tick =
     \<lparr>sensor_samples =
        (\<lambda>i. \<lparr>irradiance_sample = 1000, temperature_sample = 25, wear_sample = 0.005\<rparr>),
      region_samples =
        (\<lambda>i. \<lparr>water_units_sample = 15000, meds_index = 0, findings_index = 3,
              seed_sample = 1234, rep_sample = 0.75\<rparr>),
      threat_sample = 5000, gold_sample = 0.001, oil_sample = 0.0015, nuclear_index = 1\<rparr>"

definition alert_tick :: tick_random where
  "alert_tick = sample_tick\<lparr>threat_sample := 8800\<rparr>"

definition no_regions :: config where
  "no_regions = \<lparr>GRID_NODES = [], SIM_INTERVAL_SECONDS = 1\<rparr>"

section \<open>Basic facts\<close>

lemma and_then_simps [simp]:
  "and_then (Inl e) f = Inl e"
  "and_then (Inr x) f = f x"
  by (simp_all add: and_then_def)

lemma item_simps [simp]:
  "item key None = Inl (KeyError key)"
  "item key (Some x) = Inr x"
  by (simp_all add: item_def)

lemma item_the: "v \<noteq> None \<Longrightarrow> item key v = Inr (the v)"
  by (cases v) simp_all

lemma if_missing_simps [simp]:
  "if_missing None d = Some d"
  "if_missing (Some x) d = Some x"
  by (simp_all add: if_missing_def)

lemma if_missing_not_None [simp]: "if_missing v d \<noteq> None"
  by (cases v) simp_all

lemma if_missing_is_Some [simp]: "\<exists>x. if_missing v d = Some x"
  by (cases v) simp_all

lemma the_if_missing [simp]: "the (if_missing v d) = value_or v d"
  by (cases v) (simp_all add: value_or_def)

lemma value_or_simps [simp]:
  "value_or None d = d"
  "value_or (Some x) d = x"
  by (simp_all add: value_or_def)

subsection \<open>Rounding\<close>


lemma round_half_even_of_int [simp]: "round_half_even (of_int k) = k"
  by (simp add: round_half_even_def)

lemma round_half_even_mono:
  assumes "x \<le> y"
  shows "round_half_even x \<le> round_half_even y"
proof (cases "\<lfloor>x\<rfloor> = \<lfloor>y\<rfloor>")
  case True
  with assms show ?thesis
    unfolding round_half_even_def Let_def by auto
next
  case False
  with assms have "\<lfloor>x\<rfloor> < \<lfloor>y\<rfloor>"
    by (simp add: floor_mono order.not_eq_order_implies_strict)
  then have "\<lfloor>x\<rfloor> + 1 \<le> \<lfloor>y\<rfloor>" by simp
  moreover have "round_half_even x \<le> \<lfloor>x\<rfloor> + 1"
    unfolding round_half_even_def Let_def by auto
  moreover have "\<lfloor>y\<rfloor> \<le> round_half_even y"
    unfolding round_half_even_def Let_def by auto
  ultimately show ?thesis by linarith
qed

lemma py_round_mono: "x \<le> y \<Longrightarrow> py_round x n \<le> py_round y n"
  unfolding py_round_def
  by (intro divide_right_mono of_int_le_iff[THEN iffD2] round_half_even_mono mult_right_mono)
    simp_all

lemma py_round_zero [simp]: "py_round 0 n = 0"
  using round_half_even_of_int[of 0] by (simp add: py_round_def)

lemma py_round_nonneg: "0 \<le> x \<Longrightarrow> 0 \<le> py_round x n"
  using py_round_mono[of 0 x n] by simp


lemma nuclear_choice_cases:
  "k < length nuclear_choices \<Longrightarrow>
   quiet_nuclear_protocol_scan k m = 0 \<or> quiet_nuclear_protocol_scan k m = 1"
  by (cases k) (simp_all add: quiet_nuclear_protocol_scan_def random_choice_def
      nuclear_choices_def)

lemma valid_sample_tick: "valid_tick_random sample_tick"
  by (simp add: valid_tick_random_def valid_sensor_random_def valid_region_random_def
      sample_tick_def meds_choices_def findings_choices_def nuclear_choices_def)

lemma valid_alert_tick: "valid_tick_random alert_tick"
  using valid_sample_tick by (simp add: valid_tick_random_def alert_tick_def)

subsection \<open>The phases of a step on a state whose keys are present\<close>

lemma logs_append_the:
  "logs cr \<noteq> None \<Longrightarrow> logs_append l cr = Inr (cr\<lparr>logs := Some (the (logs cr) @ [l])\<rparr>)"
  by (simp add: logs_append_def item_the)

lemma supply_chain_append_the:
  "supply_chain cr \<noteq> None \<Longrightarrow>
   supply_chain_append l cr = Inr (cr\<lparr>supply_chain := Some (the (supply_chain cr) @ [l])\<rparr>)"
  by (simp add: supply_chain_append_def item_the)

lemma orbital_append_the:
  "orbital cr \<noteq> None \<Longrightarrow>
   orbital_append l cr = Inr (cr\<lparr>orbital := Some (the (orbital cr) @ [l])\<rparr>)"
  by (simp add: orbital_append_def item_the)

lemma ids_append_the:
  "ids cr \<noteq> None \<Longrightarrow> ids_append l cr = Inr (cr\<lparr>ids := Some (the (ids cr) @ [l])\<rparr>)"
  by (simp add: ids_append_def item_the)

lemma anomalies_append_the:
  "anomalies cr \<noteq> None \<Longrightarrow>
   anomalies_append l cr = Inr (cr\<lparr>anomalies := Some (the (anomalies cr) @ [l])\<rparr>)"
  by (simp add: anomalies_append_def item_the)

lemmas append_the =
  logs_append_the supply_chain_append_the orbital_append_the ids_append_the
  anomalies_append_the

lemma distribute_loop_Inr:
  "GRID_NODES cfg \<noteq> [] \<or> nodes = [] \<Longrightarrow> logs cr \<noteq> None \<Longrightarrow>
   distribute_loop cfg t amount nodes cr =
     Inr (map (credited cfg amount) nodes,
          cr\<lparr>logs := Some (the (logs cr) @ distribution_lines cfg t amount nodes)\<rparr>)"
proof (induction nodes arbitrary: cr)
  case Nil
  then show ?case by (auto simp: distribution_lines_def)
next
  case (Cons node rest)
  then show ?case
    by (simp add: balance_and_distribute_def logs_append_the credited_def
        distribution_lines_def)
qed

lemma distribute_loop_Inl:
  "GRID_NODES cfg = [] \<Longrightarrow> nodes \<noteq> [] \<Longrightarrow>
   distribute_loop cfg t amount nodes cr = Inl ZeroDivisionError"
  by (cases nodes) (simp_all add: balance_and_distribute_def)

lemma regional_loop_Inr:
  "supply_chain cr \<noteq> None \<Longrightarrow> orbital cr \<noteq> None \<Longrightarrow> ids cr \<noteq> None \<Longrightarrow>
   logs cr \<noteq> None \<Longrightarrow>
   regional_loop t rs i regions cr =
     Inr (cr\<lparr>supply_chain := Some (the (supply_chain cr) @
                 map (\<lambda>(a, b, c). Event_line t a) (regional_events rs i regions)),
             orbital := Some (the (orbital cr) @
                 map (\<lambda>(a, b, c). Event_line t b) (regional_events rs i regions)),
             ids := Some (the (ids cr) @
                 map (\<lambda>(a, b, c). Event_line t c) (regional_events rs i regions)),
             logs := Some (the (logs cr) @ regional_lines t rs i regions)\<rparr>)"
proof (induction regions arbitrary: i cr)
  case Nil
  then show ?case by (simp add: regional_lines_def)
next
  case (Cons region rest)
  then show ?case
    by (simp add: regional_operations_def Let_def append_the regional_lines_def)
qed

lemma asp_monitoring_the:
  "anomalies cr \<noteq> None \<Longrightarrow> logs cr \<noteq> None \<Longrightarrow>
   asp_monitoring t threat a cr =
     Inr (if threat > 8500
          then cr\<lparr>anomalies := Some (the (anomalies cr) @ [Alert_line t]),
                  logs := Some (the (logs cr) @ alert_lines t threat)\<rparr>
          else cr\<lparr>logs := Some (the (logs cr) @ alert_lines t threat)\<rparr>)"
  by (simp add: asp_monitoring_def Let_def append_the alert_lines_def)

lemma resource_searches_the:
  "gold cr \<noteq> None \<Longrightarrow> oil cr \<noteq> None \<Longrightarrow> nuclear_signatures cr \<noteq> None \<Longrightarrow>
   logs cr \<noteq> None \<Longrightarrow>
   resource_searches t dt rnd cr =
     Inr (cr\<lparr>gold := Some (the (gold cr) + ai_boring_search_for_gold (gold_sample rnd) (dt / 60)),
             oil := Some (the (oil cr) + ai_boring_search_for_oil (oil_sample rnd) (dt / 60)),
             nuclear_signatures :=
               Some (the (nuclear_signatures cr) +
                 quiet_nuclear_protocol_scan (nuclear_index rnd) (dt / 60)),
             logs := Some (the (logs cr) @
               [Gold_line t (ai_boring_search_for_gold (gold_sample rnd) (dt / 60))
                  (the (gold cr) + ai_boring_search_for_gold (gold_sample rnd) (dt / 60)),
                Oil_line t (ai_boring_search_for_oil (oil_sample rnd) (dt / 60))
                  (the (oil cr) + ai_boring_search_for_oil (oil_sample rnd) (dt / 60)),
                Nuclear_line t (quiet_nuclear_protocol_scan (nuclear_index rnd) (dt / 60))
                  (the (nuclear_signatures cr) +
                   quiet_nuclear_protocol_scan (nuclear_index rnd) (dt / 60))])\<rparr>)"
  by (simp add: resource_searches_def Let_def append_the item_the)

lemma generate_and_total_the:
  "energy cr \<noteq> None \<Longrightarrow> logs cr \<noteq> None \<Longrightarrow>
   generate_and_total cfg t rnd nodes cr =
     Inr (sum_list (map snd (generate_all cfg (sensor_samples rnd) nodes)),
          cr\<lparr>solar_nodes := Some (map fst (generate_all cfg (sensor_samples rnd) nodes)),
             energy := Some ((the (energy cr))\<lparr>total_mwh := total_mwh (the (energy cr)) +
                 sum_list (map snd (generate_all cfg (sensor_samples rnd) nodes))\<rparr>),
             logs := Some (the (logs cr) @
               [Energy_line t (sum_list (map snd (generate_all cfg (sensor_samples rnd) nodes)))])\<rparr>)"
  by (simp add: generate_and_total_def Let_def append_the item_the)

subsection \<open>What a step returns\<close>

lemma simulation_events_Inr:
  assumes "GRID_NODES cfg \<noteq> [] \<or> distribution_before cfg cr = []"
  shows "\<exists>cr'. simulation_events cfg cr t dt rnd = Inr cr' \<and>
     solar_nodes cr' = Some (map fst (generate_all cfg (sensor_samples rnd) (nodes_before cfg cr))) \<and>
     distribution_nodes cr' =
       Some (map (credited cfg (tick_energy cfg rnd cr)) (distribution_before cfg cr)) \<and>
     asp cr' \<noteq> None \<and>
     energy cr' = Some ((value_or (energy cr) \<lparr>total_mwh = 0\<rparr>)
        \<lparr>total_mwh := total_before cr + tick_energy cfg rnd cr\<rparr>) \<and>
     gold cr' = Some (value_or (gold cr) 0 + ai_boring_search_for_gold (gold_sample rnd) (dt / 60)) \<and>
     oil cr' = Some (value_or (oil cr) 0 + ai_boring_search_for_oil (oil_sample rnd) (dt / 60)) \<and>
     nuclear_signatures cr' =
       Some (value_or (nuclear_signatures cr) 0 +
             quiet_nuclear_protocol_scan (nuclear_index rnd) (dt / 60)) \<and>
     anomalies cr' \<noteq> None \<and> supply_chain cr' \<noteq> None \<and> orbital cr' \<noteq> None \<and>
     ids cr' \<noteq> None \<and> bcp_transactions cr' \<noteq> None \<and>
     logs cr' = Some (value_or (logs cr) [] @ tick_lines cfg cr t dt rnd) \<and>
     current_sim_time cr' = current_sim_time cr \<and> sim_step_count cr' = sim_step_count cr"
  using assms
  by (simp add: simulation_events_def initialize_objects_def initialize_metrics_def Let_def
      item_the generate_and_total_the distribute_loop_Inr regional_loop_Inr asp_monitoring_the
      resource_searches_the tick_lines_def tick_energy_def nodes_before_def
      distribution_before_def total_before_def resource_lines_def)

lemma simulation_events_Inl:
  assumes "GRID_NODES cfg = []" and "distribution_before cfg cr \<noteq> []"
  shows "simulation_events cfg cr t dt rnd = Inl ZeroDivisionError"
  using assms
  by (simp add: simulation_events_def initialize_objects_def initialize_metrics_def Let_def
      item_the generate_and_total_the distribute_loop_Inl distribution_before_def)

lemma run_simulation_step_Inr:
  assumes "GRID_NODES cfg \<noteq> [] \<or> distribution_before cfg cr = []"
  shows "\<exists>cr'. run_simulation_step cfg cr t dt rnd = Inr cr' \<and>
     solar_nodes cr' = Some (map fst (generate_all cfg (sensor_samples rnd) (nodes_before cfg cr))) \<and>
     distribution_nodes cr' =
       Some (map (credited cfg (tick_energy cfg rnd cr)) (distribution_before cfg cr)) \<and>
     asp cr' \<noteq> None \<and>
     energy cr' = Some ((value_or (energy cr) \<lparr>total_mwh = 0\<rparr>)
        \<lparr>total_mwh := total_before cr + tick_energy cfg rnd cr\<rparr>) \<and>
     gold cr' = Some (value_or (gold cr) 0 + ai_boring_search_for_gold (gold_sample rnd) (dt / 60)) \<and>
     oil cr' = Some (value_or (oil cr) 0 + ai_boring_search_for_oil (oil_sample rnd) (dt / 60)) \<and>
     nuclear_signatures cr' =
       Some (value_or (nuclear_signatures cr) 0 +
             quiet_nuclear_protocol_scan (nuclear_index rnd) (dt / 60)) \<and>
     anomalies cr' \<noteq> None \<and> supply_chain cr' \<noteq> None \<and> orbital cr' \<noteq> None \<and>
     ids cr' \<noteq> None \<and> bcp_transactions cr' \<noteq> None \<and>
     logs cr' = Some (last_entries 50 (value_or (logs cr) [] @ tick_lines cfg cr t dt rnd)) \<and>
     current_sim_time cr' = current_sim_time cr \<and> sim_step_count cr' = sim_step_count cr"
proof -
  from simulation_events_Inr[OF assms, of t dt rnd] obtain mid where
    mid: "simulation_events cfg cr t dt rnd = Inr mid"
    and fields: "solar_nodes mid =
        Some (map fst (generate_all cfg (sensor_samples rnd) (nodes_before cfg cr)))"
      "distribution_nodes mid =
        Some (map (credited cfg (tick_energy cfg rnd cr)) (distribution_before cfg cr))"
      "asp mid \<noteq> None"
      "energy mid = Some ((value_or (energy cr) \<lparr>total_mwh = 0\<rparr>)
        \<lparr>total_mwh := total_before cr + tick_energy cfg rnd cr\<rparr>)"
      "gold mid = Some (value_or (gold cr) 0 + ai_boring_search_for_gold (gold_sample rnd) (dt / 60))"
      "oil mid = Some (value_or (oil cr) 0 + ai_boring_search_for_oil (oil_sample rnd) (dt / 60))"
      "nuclear_signatures mid =
       Some (value_or (nuclear_signatures cr) 0 +
             quiet_nuclear_protocol_scan (nuclear_index rnd) (dt / 60))"
      "anomalies mid \<noteq> None" "supply_chain mid \<noteq> None" "orbital mid \<noteq> None"
      "ids mid \<noteq> None" "bcp_transactions mid \<noteq> None"
      "logs mid = Some (value_or (logs cr) [] @ tick_lines cfg cr t dt rnd)"
      "current_sim_time mid = current_sim_time cr" "sim_step_count mid = sim_step_count cr"
    by blast
  have "run_simulation_step cfg cr t dt rnd =
      Inr (mid\<lparr>logs := Some (last_entries 50 (value_or (logs cr) [] @ tick_lines cfg cr t dt rnd))\<rparr>)"
    by (simp add: run_simulation_step_def mid keep_last_logs_def fields)
  with fields show ?thesis
    by simp
qed

lemma run_simulation_step_Inl:
  assumes "GRID_NODES cfg = []" and "distribution_before cfg cr \<noteq> []"
  shows "run_simulation_step cfg cr t dt rnd = Inl ZeroDivisionError"
  by (simp add: run_simulation_step_def simulation_events_Inl[OF assms])

subsection \<open>Counting the lines of a tick\<close>

lemma length_regional_events [simp]: "length (regional_events rs i regions) = length regions"
  by (induction regions arbitrary: i) simp_all

lemma length_regional_lines [simp]: "length (regional_lines t rs i regions) = 3 * length regions"
  by (induction regions arbitrary: i) (simp_all add: regional_lines_def)

lemma length_tick_lines:
  "length (tick_lines cfg cr t dt rnd) =
     4 + length (distribution_before cfg cr) + 3 * length (GRID_NODES cfg) +
     length (alert_lines t (threat_sample rnd))"
  by (simp add: tick_lines_def distribution_lines_def resource_lines_def Let_def)

lemma alert_in_regional_lines [simp]: "Alert_line t \<notin> set (regional_lines t' rs i regions)"
  by (induction regions arbitrary: i) (simp_all add: regional_lines_def)

lemma alert_in_tick_lines:
  "Alert_line t \<in> set (tick_lines cfg cr t dt rnd) \<longleftrightarrow> 8500 < threat_sample rnd"
  by (auto simp: tick_lines_def distribution_lines_def resource_lines_def Let_def
      alert_lines_def)

lemma last_entries_decompose:
  "length (last_entries n xs) = min n (length xs) \<and>
   take (length xs - n) xs @ last_entries n xs = xs"
  by (auto simp: last_entries_def)

subsection \<open>The solar nodes of a tick\<close>

lemma length_generate_all [simp]: "length (generate_all cfg rs nodes) = length nodes"
  by (simp add: generate_all_def)

lemma nth_generate_all:
  "i < length nodes \<Longrightarrow> generate_all cfg rs nodes ! i = generate_energy cfg (rs i) (nodes ! i)"
  by (simp add: generate_all_def nth_enumerate_eq)

lemma sum_generate_all:
  "sum_list (map snd (generate_all cfg rs nodes)) =
     (\<Sum>i<length nodes. snd (generate_energy cfg (rs i) (nodes ! i)))"
proof -
  have "sum_list (map snd (generate_all cfg rs nodes)) =
      (\<Sum>i = 0..<length nodes. map snd (generate_all cfg rs nodes) ! i)"
    using sum_list_sum_nth[of "map snd (generate_all cfg rs nodes)"] by simp
  also have "\<dots> = (\<Sum>i = 0..<length nodes. snd (generate_energy cfg (rs i) (nodes ! i)))"
    by (intro sum.cong refl) (simp add: nth_generate_all)
  finally show ?thesis
    by (simp add: atLeast0LessThan)
qed

subsection \<open>Signs and health\<close>

lemma generate_energy_health:
  "panel_health (fst (generate_energy cfg r node)) = max 80 (panel_health node - wear_sample r)"
  by (simp add: generate_energy_def calibrate_output_def read_sensors_def Let_def)

lemma generate_energy_factors:
  assumes "valid_sensor_random r"
  shows "\<exists>a. 0 < a \<and> snd (generate_energy cfg r node) = a * (SIM_INTERVAL_SECONDS cfg / 3600)"
proof -
  let ?h = "max 80 (panel_health node - wear_sample r)"
  let ?f = "max 0.75 (1 - (temperature_sample r - 25) * 0.01)"
  let ?a = "(irradiance_sample r / 1000 * 0.3) * (?h / 100) * ?f"
  from assms have base: "0 < irradiance_sample r / 1000 * 0.3"
    by (simp add: valid_sensor_random_def)
  have health: "0 < ?h / 100" and temp: "0 < ?f"
    by simp_all
  have "0 < ?a"
    by (rule mult_pos_pos[OF mult_pos_pos[OF base health] temp])
  moreover have "snd (generate_energy cfg r node) = ?a * (SIM_INTERVAL_SECONDS cfg / 3600)"
    by (simp add: generate_energy_def calibrate_output_def read_sensors_def Let_def)
  ultimately show ?thesis
    by blast
qed

lemma generate_energy_nonneg:
  assumes "valid_sensor_random r" and "0 \<le> SIM_INTERVAL_SECONDS cfg"
  shows "0 \<le> snd (generate_energy cfg r node)"
proof -
  from generate_energy_factors[OF assms(1), of cfg node] obtain a where
    a: "0 < a" "snd (generate_energy cfg r node) = a * (SIM_INTERVAL_SECONDS cfg / 3600)"
    by blast
  from assms(2) have "0 \<le> SIM_INTERVAL_SECONDS cfg / 3600"
    by simp
  with a(1) have "0 \<le> a * (SIM_INTERVAL_SECONDS cfg / 3600)"
    by (intro mult_nonneg_nonneg) simp_all
  with a(2) show ?thesis
    by (simp only:)
qed

lemma generate_energy_pos:
  assumes "valid_sensor_random r" and "0 < SIM_INTERVAL_SECONDS cfg"
  shows "0 < snd (generate_energy cfg r node)"
proof -
  from generate_energy_factors[OF assms(1), of cfg node] obtain a where
    a: "0 < a" "snd (generate_energy cfg r node) = a * (SIM_INTERVAL_SECONDS cfg / 3600)"
    by blast
  from assms(2) have "0 < SIM_INTERVAL_SECONDS cfg / 3600"
    by simp
  with a(1) have "0 < a * (SIM_INTERVAL_SECONDS cfg / 3600)"
    by (rule mult_pos_pos)
  with a(2) show ?thesis
    by (simp only:)
qed

lemma tick_energy_nonneg:
  assumes "valid_tick_random rnd" and "0 \<le> SIM_INTERVAL_SECONDS cfg"
  shows "0 \<le> tick_energy cfg rnd cr"
  unfolding tick_energy_def sum_generate_all
  using assms by (intro sum_nonneg generate_energy_nonneg) (simp_all add: valid_tick_random_def)

lemma tick_energy_pos:
  assumes "valid_tick_random rnd" and "0 < SIM_INTERVAL_SECONDS cfg"
    and "nodes_before cfg cr \<noteq> []"
  shows "0 < tick_energy cfg rnd cr"
  unfolding tick_energy_def sum_generate_all
  using assms
  by (intro sum_pos generate_energy_pos) (simp_all add: valid_tick_random_def lessThan_empty_iff)

lemma resources_nonneg:
  assumes "valid_tick_random rnd" and "0 \<le> dt"
  shows "0 \<le> ai_boring_search_for_gold (gold_sample rnd) (dt / 60)"
    and "0 \<le> ai_boring_search_for_oil (oil_sample rnd) (dt / 60)"
    and "0 \<le> quiet_nuclear_protocol_scan (nuclear_index rnd) (dt / 60)"
proof -
  from assms have "0 \<le> gold_sample rnd * (dt / 60)" "0 \<le> oil_sample rnd * (dt / 60)"
    by (simp_all add: valid_tick_random_def)
  then show "0 \<le> ai_boring_search_for_gold (gold_sample rnd) (dt / 60)"
    and "0 \<le> ai_boring_search_for_oil (oil_sample rnd) (dt / 60)"
    by (simp_all add: ai_boring_search_for_gold_def ai_boring_search_for_oil_def
        py_round_nonneg)
  from assms(1) have "nuclear_index rnd < length nuclear_choices"
    by (simp add: valid_tick_random_def)
  from nuclear_choice_cases[OF this, of "dt / 60"]
  show "0 \<le> quiet_nuclear_protocol_scan (nuclear_index rnd) (dt / 60)"
    by auto
qed

lemma step_monotone:
  assumes regions: "GRID_NODES cfg \<noteq> []"
    and interval: "0 \<le> SIM_INTERVAL_SECONDS cfg" "0 \<le> dt"
    and valid: "valid_tick_random rnd"
    and healthy: "\<forall>node\<in>set (nodes_before cfg cr). 80 \<le> panel_health node"
  shows "\<exists>cr'. run_simulation_step cfg cr t dt rnd = Inr cr' \<and>
     total_before cr \<le> total_before cr' \<and>
     value_or (gold cr) 0 \<le> value_or (gold cr') 0 \<and>
     value_or (oil cr) 0 \<le> value_or (oil cr') 0 \<and>
     value_or (nuclear_signatures cr) 0 \<le> value_or (nuclear_signatures cr') 0 \<and>
     length (nodes_before cfg cr') = length (nodes_before cfg cr) \<and>
     (\<forall>i<length (nodes_before cfg cr).
        panel_health (nodes_before cfg cr' ! i) \<le> panel_health (nodes_before cfg cr ! i) \<and>
        80 \<le> panel_health (nodes_before cfg cr' ! i))"
proof -
  let ?nodes = "nodes_before cfg cr"
  let ?nodes' = "map fst (generate_all cfg (sensor_samples rnd) ?nodes)"
  from regions have "GRID_NODES cfg \<noteq> [] \<or> distribution_before cfg cr = []"
    by simp
  from run_simulation_step_Inr[OF this, of t dt rnd] obtain cr' where
    cr': "run_simulation_step cfg cr t dt rnd = Inr cr'"
    and nodes: "solar_nodes cr' = Some ?nodes'"
    and total: "energy cr' = Some ((value_or (energy cr) \<lparr>total_mwh = 0\<rparr>)
        \<lparr>total_mwh := total_before cr + tick_energy cfg rnd cr\<rparr>)"
    and g: "gold cr' =
        Some (value_or (gold cr) 0 + ai_boring_search_for_gold (gold_sample rnd) (dt / 60))"
    and b: "oil cr' =
        Some (value_or (oil cr) 0 + ai_boring_search_for_oil (oil_sample rnd) (dt / 60))"
    and n: "nuclear_signatures cr' =
        Some (value_or (nuclear_signatures cr) 0 +
              quiet_nuclear_protocol_scan (nuclear_index rnd) (dt / 60))"
    by blast
  have after: "nodes_before cfg cr' = ?nodes'"
    by (simp add: nodes_before_def nodes)
  have "total_before cr' = total_before cr + tick_energy cfg rnd cr"
    by (simp add: total_before_def total)
  with tick_energy_nonneg[OF valid interval(1), of cr]
  have 1: "total_before cr \<le> total_before cr'"
    by simp
  from resources_nonneg[OF valid interval(2)]
  have 2: "value_or (gold cr) 0 \<le> value_or (gold cr') 0"
    and 3: "value_or (oil cr) 0 \<le> value_or (oil cr') 0"
    and 4: "value_or (nuclear_signatures cr) 0 \<le> value_or (nuclear_signatures cr') 0"
    by (simp_all add: g b n)
  have 5: "length (nodes_before cfg cr') = length ?nodes"
    by (simp add: after)
  have 6: "panel_health (nodes_before cfg cr' ! i) \<le> panel_health (?nodes ! i) \<and>
      80 \<le> panel_health (nodes_before cfg cr' ! i)" if i: "i < length ?nodes" for i
  proof -
    from i healthy have "80 \<le> panel_health (?nodes ! i)"
      by simp
    moreover from valid have "0 \<le> wear_sample (sensor_samples rnd i)"
      by (simp add: valid_tick_random_def valid_sensor_random_def)
    moreover from i have "panel_health (nodes_before cfg cr' ! i) =
        max 80 (panel_health (?nodes ! i) - wear_sample (sensor_samples rnd i))"
      by (simp add: after nth_generate_all generate_energy_health)
    ultimately show ?thesis
      by simp
  qed
  from cr' 1 2 3 4 5 6 show ?thesis
    by blast
qed

subsection \<open>Repeated calls\<close>

lemma step_keeps_keys:
  assumes "GRID_NODES cfg \<noteq> []"
  shows "\<exists>cr'. run_simulation_step cfg cr t dt rnd = Inr cr' \<and> all_keys_present cr'"
proof -
  from assms have "GRID_NODES cfg \<noteq> [] \<or> distribution_before cfg cr = []"
    by simp
  from run_simulation_step_Inr[OF this, of t dt rnd] show ?thesis
    by (auto simp: all_keys_present_def)
qed

lemma run_steps_returns:
  assumes "GRID_NODES cfg \<noteq> []"
  shows "\<exists>cr'. run_steps cfg calls cr = Inr cr' \<and> (calls \<noteq> [] \<longrightarrow> all_keys_present cr')"
proof (induction calls arbitrary: cr)
  case Nil
  show ?case by simp
next
  case (Cons call calls)
  obtain t dt rnd where call: "call = (t, dt, rnd)"
    by (cases call)
  from step_keeps_keys[OF assms, of cr t dt rnd] obtain mid where
    mid: "run_simulation_step cfg cr t dt rnd = Inr mid" "all_keys_present mid"
    by blast
  from Cons.IH[of mid] obtain cr' where
    cr': "run_steps cfg calls mid = Inr cr'" "calls \<noteq> [] \<longrightarrow> all_keys_present cr'"
    by blast
  have "all_keys_present cr'"
  proof (cases "calls = []")
    case True
    with cr'(1) mid(2) show ?thesis by simp
  next
    case False
    with cr'(2) show ?thesis by simp
  qed
  with call mid(1) cr'(1) show ?case
    by simp
qed

lemma initialization_fills_keys:
  "all_keys_present (initialize_metrics (initialize_objects cfg cr))"
  by (simp add: all_keys_present_def initialize_metrics_def initialize_objects_def)

subsection \<open>The driver loop\<close>

lemma views_ignore_driver_keys [simp]:
  "nodes_before cfg (st\<lparr>current_sim_time := a, sim_step_count := b\<rparr>) = nodes_before cfg st"
  "distribution_before cfg (st\<lparr>current_sim_time := a, sim_step_count := b\<rparr>) =
     distribution_before cfg st"
  "total_before (st\<lparr>current_sim_time := a, sim_step_count := b\<rparr>) = total_before st"
  "tick_energy cfg rnd (st\<lparr>current_sim_time := a, sim_step_count := b\<rparr>) =
     tick_energy cfg rnd st"
  by (simp_all add: nodes_before_def distribution_before_def total_before_def tick_energy_def)

lemma generate_all_Nil_iff [simp]: "generate_all cfg rs nodes = [] \<longleftrightarrow> nodes = []"
  by (metis length_0_conv length_generate_all)

lemma length_tick_lines_regions:
  assumes "length (distribution_before cfg cr) = length (GRID_NODES cfg)"
  shows "length (tick_lines cfg cr t dt rnd) = lines_per_tick (length (GRID_NODES cfg)) rnd"
  using assms by (simp add: length_tick_lines alert_lines_def lines_per_tick_def)

lemma driver_iteration_Inr:
  assumes regions: "GRID_NODES cfg \<noteq> []"
    and interval: "0 < SIM_INTERVAL_SECONDS cfg"
    and valid: "valid_tick_random rnd"
    and keys: "current_sim_time st = Some now" "sim_step_count st = Some n"
    and nodes: "length (distribution_before cfg st) = length (GRID_NODES cfg)"
      "nodes_before cfg st \<noteq> []"
  shows "\<exists>st'. driver_iteration cfg rnd st = Inr st' \<and>
     current_sim_time st' = Some (now + SIM_INTERVAL_SECONDS cfg) \<and>
     sim_step_count st' = Some (n + 1) \<and>
     total_before st < total_before st' \<and>
     energy st' \<noteq> None \<and> logs st' \<noteq> None \<and>
     length (value_or (logs st') []) =
       min 50 (length (value_or (logs st) []) + lines_per_tick (length (GRID_NODES cfg)) rnd) \<and>
     length (distribution_before cfg st') = length (GRID_NODES cfg) \<and>
     nodes_before cfg st' \<noteq> []"
proof -
  let ?t = "now + SIM_INTERVAL_SECONDS cfg"
  let ?st = "st\<lparr>current_sim_time := Some ?t, sim_step_count := Some (n + 1)\<rparr>"
  have run: "driver_iteration cfg rnd st =
      run_simulation_step cfg ?st ?t (SIM_INTERVAL_SECONDS cfg) rnd"
    by (simp add: driver_iteration_def keys Let_def)
  from regions have "GRID_NODES cfg \<noteq> [] \<or> distribution_before cfg ?st = []"
    by simp
  from run_simulation_step_Inr[OF this, of ?t "SIM_INTERVAL_SECONDS cfg" rnd] obtain st' where
    st': "run_simulation_step cfg ?st ?t (SIM_INTERVAL_SECONDS cfg) rnd = Inr st'"
    and sn: "solar_nodes st' =
        Some (map fst (generate_all cfg (sensor_samples rnd) (nodes_before cfg ?st)))"
    and dn: "distribution_nodes st' =
        Some (map (credited cfg (tick_energy cfg rnd ?st)) (distribution_before cfg ?st))"
    and en: "energy st' = Some ((value_or (energy ?st) \<lparr>total_mwh = 0\<rparr>)
        \<lparr>total_mwh := total_before ?st + tick_energy cfg rnd ?st\<rparr>)"
    and lg: "logs st' = Some (last_entries 50 (value_or (logs ?st) [] @
        tick_lines cfg ?st ?t (SIM_INTERVAL_SECONDS cfg) rnd))"
    and tm: "current_sim_time st' = current_sim_time ?st"
    and ct: "sim_step_count st' = sim_step_count ?st"
    by blast
  have "total_before st' = total_before st + tick_energy cfg rnd st"
    using en by (simp add: total_before_def)
  with tick_energy_pos[OF valid interval nodes(2)] have grow: "total_before st < total_before st'"
    by simp
  have "length (tick_lines cfg ?st ?t (SIM_INTERVAL_SECONDS cfg) rnd) =
      lines_per_tick (length (GRID_NODES cfg)) rnd"
    using nodes(1) by (intro length_tick_lines_regions) simp
  then have lines: "length (value_or (logs st') []) =
      min 50 (length (value_or (logs st) []) + lines_per_tick (length (GRID_NODES cfg)) rnd)"
    using last_entries_decompose[of 50 "value_or (logs ?st) [] @
        tick_lines cfg ?st ?t (SIM_INTERVAL_SECONDS cfg) rnd"]
    by (simp add: lg)
  have dist: "length (distribution_before cfg st') = length (GRID_NODES cfg)"
    using nodes(1) by (simp add: distribution_before_def dn)
  have sol: "nodes_before cfg st' \<noteq> []"
    using nodes(2) by (simp add: nodes_before_def sn)
  from run st' tm ct grow en lg lines dist sol show ?thesis
    by simp
qed

lemma run_ticks_result:
  assumes regions: "GRID_NODES cfg \<noteq> []"
    and interval: "0 < SIM_INTERVAL_SECONDS cfg"
    and valid: "\<forall>rnd\<in>set ticks. valid_tick_random rnd"
    and keys: "current_sim_time st \<noteq> None" "sim_step_count st = Some n"
    and nodes: "length (distribution_before cfg st) = length (GRID_NODES cfg)"
      "nodes_before cfg st \<noteq> []"
    and short: "length (value_or (logs st) []) \<le> 50"
  shows "\<exists>st'. run_ticks cfg ticks st = Inr st' \<and>
     sim_step_count st' = Some (n + int (length ticks)) \<and>
     (ticks \<noteq> [] \<longrightarrow> total_before st < total_before st' \<and> energy st' \<noteq> None \<and>
        logs st' \<noteq> None) \<and>
     length (value_or (logs st') []) =
       min 50 (length (value_or (logs st) []) +
         sum_list (map (lines_per_tick (length (GRID_NODES cfg))) ticks))"
  using valid keys nodes short
proof (induction ticks arbitrary: st n)
  case Nil
  then show ?case by simp
next
  case (Cons rnd ticks)
  from Cons.prems(1) have now: "valid_tick_random rnd"
    and later: "\<forall>rnd\<in>set ticks. valid_tick_random rnd"
    by simp_all
  from Cons.prems(2) obtain time where time: "current_sim_time st = Some time"
    by blast
  from driver_iteration_Inr[OF regions interval now time Cons.prems(3,4,5)] obtain mid where
    mid: "driver_iteration cfg rnd st = Inr mid"
    and m: "current_sim_time mid \<noteq> None" "sim_step_count mid = Some (n + 1)"
      "length (distribution_before cfg mid) = length (GRID_NODES cfg)"
      "nodes_before cfg mid \<noteq> []"
    and grow: "total_before st < total_before mid" "energy mid \<noteq> None" "logs mid \<noteq> None"
    and lines: "length (value_or (logs mid) []) =
       min 50 (length (value_or (logs st) []) + lines_per_tick (length (GRID_NODES cfg)) rnd)"
    by auto
  from lines have "length (value_or (logs mid) []) \<le> 50"
    by simp
  from Cons.IH[OF later m this] obtain st' where
    st': "run_ticks cfg ticks mid = Inr st'"
    and count: "sim_step_count st' = Some (n + 1 + int (length ticks))"
    and more: "ticks \<noteq> [] \<longrightarrow> total_before mid < total_before st' \<and> energy st' \<noteq> None \<and>
        logs st' \<noteq> None"
    and all: "length (value_or (logs st') []) =
       min 50 (length (value_or (logs mid) []) +
         sum_list (map (lines_per_tick (length (GRID_NODES cfg))) ticks))"
    by blast
  have run: "run_ticks cfg (rnd # ticks) st = Inr st'"
    by (simp add: mid st')
  have empty: "st' = mid" if "ticks = []"
    using that st' by simp
  have total: "total_before st < total_before st' \<and> energy st' \<noteq> None \<and> logs st' \<noteq> None"
  proof (cases "ticks = []")
    case True
    with empty grow show ?thesis by simp
  next
    case False
    with more grow(1) show ?thesis by simp
  qed
  have len: "length (value_or (logs st') []) =
       min 50 (length (value_or (logs st) []) +
         sum_list (map (lines_per_tick (length (GRID_NODES cfg))) (rnd # ticks)))"
    using all lines by simp
  from run count total len show ?case
    by (intro exI[of _ st']) simp
qed

lemma lines_per_tick_least: "4 * r + 4 \<le> lines_per_tick r rnd"
  by (simp add: lines_per_tick_def)

lemma sum_lines_least:
  "(4 * r + 4) * length ticks \<le> sum_list (map (lines_per_tick r) ticks)"
proof (induction ticks)
  case Nil
  show ?case by simp
next
  case (Cons rnd ticks)
  with lines_per_tick_least[of r rnd] show ?case
    by simp
qed

section \<open>The integrity monitor\<close>

text \<open>
  C4. \<^verbatim>\<open>monitor_grid_integrity\<close> depends on its argument only: it returns true for every
  threat level above 8500 and false for every threat level of 8500 or less, and so
  false at 8500 itself.
\<close>

theorem monitor_grid_integrity_threshold:
  "(8500 < x \<longrightarrow> monitor_grid_integrity self x) \<and>
   (x \<le> 8500 \<longrightarrow> \<not> monitor_grid_integrity self x) \<and>
   \<not> monitor_grid_integrity self 8500 \<and>
   monitor_grid_integrity self x = monitor_grid_integrity other x"
  by simp

theorem monitor_grid_integrity_threshold_witness:
  "monitor_grid_integrity AISovereigntyProtocol 8500.5 \<and>
   \<not> monitor_grid_integrity AISovereigntyProtocol 8499"
  using monitor_grid_integrity_threshold [of "8500.5" AISovereigntyProtocol]
    monitor_grid_integrity_threshold [of 8499 AISovereigntyProtocol]
  by simp

section \<open>The solar nodes\<close>

text \<open>
  C6. \<^verbatim>\<open>generate_energy\<close> stores the irradiance and the temperature it draws and the
  panel health it lowers, and returns (and stores)
  \<open>(irradiance / 1000 \<times> 0.3) \<times> (panel_health / 100) \<times>
  max(0.75, 1 - (temperature - 25) \<times> 0.01) \<times> (SIM_INTERVAL_SECONDS / 3600)\<close>
  computed from those fresh values, where \<^verbatim>\<open>SIM_INTERVAL_SECONDS\<close> is the interval of the
  configuration.
\<close>

theorem generate_energy_output:
  assumes "generate_energy cfg r self = (self', out)"
  shows "irradiance self' = irradiance_sample r \<and>
     temperature self' = temperature_sample r \<and>
     panel_health self' = max 80 (panel_health self - wear_sample r) \<and>
     out = (irradiance self' / 1000 * 0.3) * (panel_health self' / 100) *
           max 0.75 (1 - (temperature self' - 25) * 0.01) *
           (SIM_INTERVAL_SECONDS cfg / 3600) \<and>
     output_power_mwh self' = out \<and> node_name self' = node_name self"
proof -
  let ?read = "read_sensors r self"
  let ?out = "(irradiance ?read / 1000 * 0.3) * (panel_health ?read / 100) *
      max 0.75 (1 - (temperature ?read - 25) * 0.01) * (SIM_INTERVAL_SECONDS cfg / 3600)"
  from assms have "(?read\<lparr>output_power_mwh := ?out\<rparr>, ?out) = (self', out)"
    unfolding generate_energy_def calibrate_output_def Let_def .
  then have self': "self' = ?read\<lparr>output_power_mwh := ?out\<rparr>" and out: "out = ?out"
    by (metis Pair_inject)+
  have fields: "irradiance self' = irradiance ?read" "temperature self' = temperature ?read"
    "panel_health self' = panel_health ?read" "output_power_mwh self' = ?out"
    "node_name self' = node_name ?read"
    unfolding self' by simp_all
  have read: "irradiance ?read = irradiance_sample r"
    "temperature ?read = temperature_sample r"
    "panel_health ?read = max 80 (panel_health self - wear_sample r)"
    "node_name ?read = node_name self"
    by (simp_all add: read_sensors_def)
  show ?thesis
    unfolding fields out read by (intro conjI refl)
qed

theorem generate_energy_output_witness:
  "generate_energy module_config (sensor_samples sample_tick 0)
     (new_SolarNodeController ''RegionAlpha'') =
   (\<lparr>node_name = ''RegionAlpha'', irradiance = 1000, temperature = 25,
     panel_health = 99.995, output_power_mwh = 0.3 * 0.99995 / 3600\<rparr>,
    0.3 * 0.99995 / 3600) \<and>
   0.3 * 0.99995 / 3600 = (1000 / 1000 * 0.3) * (99.995 / 100) *
     max 0.75 (1 - (25 - 25) * 0.01) * ((1::real) / 3600)"
proof -
  have run: "generate_energy module_config (sensor_samples sample_tick 0)
     (new_SolarNodeController ''RegionAlpha'') =
   (\<lparr>node_name = ''RegionAlpha'', irradiance = 1000, temperature = 25,
     panel_health = 99.995, output_power_mwh = 0.3 * 0.99995 / 3600\<rparr>,
    0.3 * 0.99995 / 3600)"
    by (simp add: generate_energy_def calibrate_output_def read_sensors_def Let_def
        module_config_def sample_tick_def new_SolarNodeController_def)
  from generate_energy_output [OF run] run show ?thesis
    by (simp add: module_config_def)
qed

section \<open>The resource generators\<close>




section \<open>The list of logs\<close>



text \<open>
  C10. On a state whose distribution nodes are as many as the \<open>R\<close> regions, one step
  appends, before it cuts the list, \<open>4R + 4\<close> lines when the threat level drawn is at
  most 8500 and \<open>4R + 5\<close> lines when it is above 8500; the alert line is among them in
  the second case only. With the three regions of the module these are 16 and 17 lines.
\<close>

theorem lines_appended_per_tick:
  assumes "length (distribution_before cfg cr) = length (GRID_NODES cfg)"
  shows "\<exists>mid appended.
     simulation_events cfg cr t dt rnd = Inr mid \<and>
     logs mid = Some (value_or (logs cr) [] @ appended) \<and>
     (threat_sample rnd \<le> 8500 \<longrightarrow>
        length appended = 4 * length (GRID_NODES cfg) + 4 \<and> Alert_line t \<notin> set appended) \<and>
     (8500 < threat_sample rnd \<longrightarrow>
        length appended = 4 * length (GRID_NODES cfg) + 5 \<and> Alert_line t \<in> set appended)"
proof -
  from assms have ok: "GRID_NODES cfg \<noteq> [] \<or> distribution_before cfg cr = []"
    by (cases "GRID_NODES cfg") simp_all
  from simulation_events_Inr[OF ok, of t dt rnd] obtain mid where
    mid: "simulation_events cfg cr t dt rnd = Inr mid"
      "logs mid = Some (value_or (logs cr) [] @ tick_lines cfg cr t dt rnd)"
    by blast
  have quiet: "length (tick_lines cfg cr t dt rnd) = 4 * length (GRID_NODES cfg) + 4"
    if "threat_sample rnd \<le> 8500"
    using that assms by (simp add: length_tick_lines alert_lines_def)
  have alert: "length (tick_lines cfg cr t dt rnd) = 4 * length (GRID_NODES cfg) + 5"
    if "8500 < threat_sample rnd"
    using that assms by (simp add: length_tick_lines alert_lines_def)
  from mid quiet alert alert_in_tick_lines[of t cfg cr dt rnd] show ?thesis
    by (intro exI[of _ mid] exI[of _ "tick_lines cfg cr t dt rnd"]) auto
qed

theorem lines_appended_per_tick_witness:
  "(\<exists>mid appended.
     simulation_events module_config empty_results 0 1 sample_tick = Inr mid \<and>
     logs mid = Some (value_or (logs empty_results) [] @ appended) \<and>
     length appended = 16 \<and> Alert_line 0 \<notin> set appended) \<and>
   (\<exists>mid appended.
     simulation_events module_config empty_results 0 1 alert_tick = Inr mid \<and>
     logs mid = Some (value_or (logs empty_results) [] @ appended) \<and>
     length appended = 17 \<and> Alert_line 0 \<in> set appended)"
proof -
  have len: "length (distribution_before module_config empty_results) =
      length (GRID_NODES module_config)"
    by (simp add: distribution_before_def empty_results_def)
  have r: "length (GRID_NODES module_config) = 3"
    by (simp add: module_config_def)
  have q: "threat_sample sample_tick \<le> 8500" "\<not> 8500 < threat_sample sample_tick"
    by (simp_all add: sample_tick_def)
  have a: "8500 < threat_sample alert_tick" "\<not> threat_sample alert_tick \<le> 8500"
    by (simp_all add: alert_tick_def)
  from lines_appended_per_tick [OF len, of 0 1 sample_tick]
    lines_appended_per_tick [OF len, of 0 1 alert_tick]
  show ?thesis
    unfolding r by (simp add: q a)
qed

section \<open>The distribution of energy\<close>

text \<open>
  C3. With a non-empty list of \<open>R\<close> regions and \<open>R\<close> distribution nodes, a step adds
  \<open>tick_energy / R\<close> to the balance of every distribution node, where \<open>tick_energy\<close> is
  the sum of what \<^verbatim>\<open>generate_energy\<close> returns over the solar nodes; the increments
  add up to \<open>tick_energy\<close>, which is also what the total energy grows by. (Arithmetic is
  exact here, so the sums agree exactly.)
\<close>

theorem energy_shared_equally:
  assumes "GRID_NODES cfg \<noteq> []"
    and "length (distribution_before cfg cr) = length (GRID_NODES cfg)"
  shows "\<exists>cr' after total.
     run_simulation_step cfg cr t dt rnd = Inr cr' \<and>
     distribution_nodes cr' = Some after \<and>
     length after = length (GRID_NODES cfg) \<and>
     (\<forall>i<length (GRID_NODES cfg).
        energy_balance (after ! i) =
          energy_balance (distribution_before cfg cr ! i) +
          tick_energy cfg rnd cr / real (length (GRID_NODES cfg)) \<and>
        region_name (after ! i) = region_name (distribution_before cfg cr ! i)) \<and>
     (\<Sum>i<length (GRID_NODES cfg).
        energy_balance (after ! i) - energy_balance (distribution_before cfg cr ! i)) =
       tick_energy cfg rnd cr \<and>
     tick_energy cfg rnd cr =
       (\<Sum>i<length (nodes_before cfg cr).
          snd (generate_energy cfg (sensor_samples rnd i) (nodes_before cfg cr ! i))) \<and>
     energy cr' = Some total \<and>
     total_mwh total = total_before cr + tick_energy cfg rnd cr"
proof -
  let ?r = "length (GRID_NODES cfg)"
  let ?e = "tick_energy cfg rnd cr"
  let ?before = "distribution_before cfg cr"
  let ?after = "map (credited cfg ?e) ?before"
  let ?total = "(value_or (energy cr) \<lparr>total_mwh = 0\<rparr>)\<lparr>total_mwh := total_before cr + ?e\<rparr>"
  from assms(1) have ok: "GRID_NODES cfg \<noteq> [] \<or> ?before = []"
    by simp
  from run_simulation_step_Inr[OF ok, of t dt rnd] obtain cr' where
    cr': "run_simulation_step cfg cr t dt rnd = Inr cr'"
      "distribution_nodes cr' = Some ?after" "energy cr' = Some ?total"
    by blast
  have len: "length ?after = ?r"
    using assms(2) by simp
  have each: "energy_balance (?after ! i) = energy_balance (?before ! i) + ?e / real ?r \<and>
      region_name (?after ! i) = region_name (?before ! i)" if "i < ?r" for i
    using that assms(2) by (simp add: credited_def)
  have "(\<Sum>i<?r. energy_balance (?after ! i) - energy_balance (?before ! i)) =
      (\<Sum>i<?r. ?e / real ?r)"
    by (intro sum.cong refl) (simp add: each)
  also have "\<dots> = ?e"
    using assms(1) by simp
  finally have whole:
    "(\<Sum>i<?r. energy_balance (?after ! i) - energy_balance (?before ! i)) = ?e" .
  have gen: "?e = (\<Sum>i<length (nodes_before cfg cr).
      snd (generate_energy cfg (sensor_samples rnd i) (nodes_before cfg cr ! i)))"
    by (simp add: tick_energy_def sum_generate_all)
  have tot: "total_mwh ?total = total_before cr + ?e"
    by simp
  from cr' len each whole gen tot show ?thesis
    by blast
qed

theorem energy_shared_equally_witness:
  "\<exists>cr' after total.
     run_simulation_step module_config empty_results 0 1 sample_tick = Inr cr' \<and>
     distribution_nodes cr' = Some after \<and>
     length after = 3 \<and>
     energy_balance (after ! 0) = tick_energy module_config sample_tick empty_results / 3 \<and>
     energy_balance (after ! 1) = tick_energy module_config sample_tick empty_results / 3 \<and>
     energy_balance (after ! 2) = tick_energy module_config sample_tick empty_results / 3 \<and>
     energy cr' = Some total \<and>
     total_mwh total = tick_energy module_config sample_tick empty_results"
proof -
  have regions: "GRID_NODES module_config \<noteq> []"
    by (simp add: module_config_def)
  have nodes: "length (distribution_before module_config empty_results) =
      length (GRID_NODES module_config)"
    by (simp add: distribution_before_def empty_results_def)
  have r: "length (GRID_NODES module_config) = 3"
    by (simp add: module_config_def)
  have start: "energy_balance (distribution_before module_config empty_results ! i) = 0"
    if "i < 3" for i
    using that
    by (simp add: distribution_before_def empty_results_def module_config_def
        new_UniversalDistributionNode_def nth_Cons split: nat.split)
  have total: "total_before empty_results = 0"
    by (simp add: total_before_def empty_results_def)
  from energy_shared_equally [OF regions nodes, of 0 1 sample_tick] obtain cr' after total
    where res: "run_simulation_step module_config empty_results 0 1 sample_tick = Inr cr'"
      "distribution_nodes cr' = Some after" "length after = 3"
      "energy cr' = Some total"
      "total_mwh total = tick_energy module_config sample_tick empty_results"
    and each: "\<forall>i<3. energy_balance (after ! i) =
        energy_balance (distribution_before module_config empty_results ! i) +
        tick_energy module_config sample_tick empty_results / 3"
    unfolding r total by auto
  from each start have "energy_balance (after ! 0) =
      tick_energy module_config sample_tick empty_results / 3"
    "energy_balance (after ! 1) = tick_energy module_config sample_tick empty_results / 3"
    "energy_balance (after ! 2) = tick_energy module_config sample_tick empty_results / 3"
    by simp_all
  with res show ?thesis
    by blast
qed

section \<open>Errors\<close>

text \<open>
  C7. With a non-empty list of regions (the module has three), \<^verbatim>\<open>run_simulation_step\<close>
  returns on every dictionary, whichever keys are missing: its first lines store every
  key that is missing, every key is present in what it returns, and calling it again
  and again on what it returned, any number of times, returns as well.
\<close>

theorem run_simulation_step_never_raises:
  assumes "GRID_NODES cfg \<noteq> []"
  shows "all_keys_present (initialize_metrics (initialize_objects cfg cr)) \<and>
     (\<exists>cr'. run_simulation_step cfg cr t dt rnd = Inr cr' \<and> all_keys_present cr') \<and>
     (\<exists>cr'. run_steps cfg calls cr = Inr cr' \<and> (calls \<noteq> [] \<longrightarrow> all_keys_present cr'))"
  using initialization_fills_keys step_keeps_keys[OF assms] run_steps_returns[OF assms]
  by blast

theorem run_simulation_step_never_raises_witness:
  "all_keys_present (initialize_metrics (initialize_objects module_config empty_results)) \<and>
   (\<exists>cr'. run_simulation_step module_config empty_results 0 1 sample_tick = Inr cr' \<and>
       all_keys_present cr') \<and>
   (\<exists>cr'. run_steps module_config [(0, 1, sample_tick), (1, 1, alert_tick)] empty_results =
       Inr cr' \<and> all_keys_present cr')"
proof -
  have "GRID_NODES module_config \<noteq> []"
    by (simp add: module_config_def)
  from run_simulation_step_never_raises [OF this, of empty_results 0 1 sample_tick
      "[(0, 1, sample_tick), (1, 1, alert_tick)]"]
  show ?thesis by simp
qed

text \<open>
  C9, as the code has it. \<^verbatim>\<open>balance_and_distribute\<close> raises exactly when the list of
  regions is empty, and what it raises is \<^verbatim>\<open>ZeroDivisionError\<close>. The step has no guard
  of its own: it raises exactly when the list of regions is empty and the state holds
  a distribution node, during the tick, with that same error. With a non-empty list of
  regions neither raises.
\<close>

theorem step_fails_only_on_empty_regions:
  "(balance_and_distribute cfg amount node = Inl e \<longleftrightarrow>
      e = ZeroDivisionError \<and> GRID_NODES cfg = []) \<and>
   (run_simulation_step cfg cr t dt rnd = Inl e \<longleftrightarrow>
      e = ZeroDivisionError \<and> GRID_NODES cfg = [] \<and> distribution_before cfg cr \<noteq> []) \<and>
   (GRID_NODES cfg \<noteq> [] \<longrightarrow>
      (\<exists>node'. balance_and_distribute cfg amount node = Inr node') \<and>
      (\<exists>cr'. run_simulation_step cfg cr t dt rnd = Inr cr'))"
proof -
  have node: "balance_and_distribute cfg amount node = Inl e \<longleftrightarrow>
      e = ZeroDivisionError \<and> GRID_NODES cfg = []"
    by (auto simp: balance_and_distribute_def)
  have node_ok: "\<exists>node'. balance_and_distribute cfg amount node = Inr node'"
    if "GRID_NODES cfg \<noteq> []"
    using that by (simp add: balance_and_distribute_def)
  have step: "run_simulation_step cfg cr t dt rnd = Inl e \<longleftrightarrow>
      e = ZeroDivisionError \<and> GRID_NODES cfg = [] \<and> distribution_before cfg cr \<noteq> []"
  proof (cases "GRID_NODES cfg = [] \<and> distribution_before cfg cr \<noteq> []")
    case True
    then show ?thesis
      using run_simulation_step_Inl[of cfg cr t dt rnd] by auto
  next
    case False
    then have "GRID_NODES cfg \<noteq> [] \<or> distribution_before cfg cr = []"
      by blast
    from run_simulation_step_Inr[OF this, of t dt rnd] obtain cr' where
      "run_simulation_step cfg cr t dt rnd = Inr cr'"
      by blast
    with False show ?thesis
      by auto
  qed
  have step_ok: "\<exists>cr'. run_simulation_step cfg cr t dt rnd = Inr cr'"
    if "GRID_NODES cfg \<noteq> []"
  proof -
    from that have "GRID_NODES cfg \<noteq> [] \<or> distribution_before cfg cr = []"
      by simp
    from run_simulation_step_Inr[OF this, of t dt rnd] show ?thesis
      by blast
  qed
  from node node_ok step step_ok show ?thesis
    by blast
qed

theorem step_fails_only_on_empty_regions_witness:
  "run_simulation_step no_regions (initial_sim_results module_config 0) 1 1 sample_tick =
     Inl ZeroDivisionError \<and>
   balance_and_distribute no_regions 1 (new_UniversalDistributionNode ''RegionAlpha'') =
     Inl ZeroDivisionError \<and>
   (\<exists>cr'. run_simulation_step module_config (initial_sim_results module_config 0) 1 1
      sample_tick = Inr cr')"
proof -
  have empty: "GRID_NODES no_regions = []"
    by (simp add: no_regions_def)
  have nodes: "distribution_before no_regions (initial_sim_results module_config 0) \<noteq> []"
    by (simp add: distribution_before_def initial_sim_results_def module_config_def)
  have full: "GRID_NODES module_config \<noteq> []"
    by (simp add: module_config_def)
  from step_fails_only_on_empty_regions
      [of no_regions 1 "new_UniversalDistributionNode ''RegionAlpha''" ZeroDivisionError
        "initial_sim_results module_config 0" 1 1 sample_tick]
    step_fails_only_on_empty_regions
      [of module_config 1 "new_UniversalDistributionNode ''RegionAlpha''" ZeroDivisionError
        "initial_sim_results module_config 0" 1 1 sample_tick]
    empty nodes full
  show ?thesis
    by simp
qed

text \<open>
  C9 as stated fails: with an empty list of regions, the first step on the empty
  dictionary creates no node, never divides, and returns.
\<close>

theorem empty_regions_step_succeeds:
  "run_simulation_step no_regions empty_results 0 1 sample_tick =
     Inr \<lparr>solar_nodes = Some [], distribution_nodes = Some [],
          asp = Some AISovereigntyProtocol, energy = Some \<lparr>total_mwh = 0\<rparr>,
          gold = Some 0.000017, oil = Some 0.000025, nuclear_signatures = Some 1,
          anomalies = Some [], supply_chain = Some [], orbital = Some [], ids = Some [],
          bcp_transactions = Some [],
          logs = Some [Energy_line 0 0, Gold_line 0 0.000017 0.000017,
                       Oil_line 0 0.000025 0.000025, Nuclear_line 0 1 1],
          current_sim_time = None, sim_step_count = None\<rparr>"
  by (simp add: run_simulation_step_def simulation_events_def initialize_objects_def
      initialize_metrics_def generate_and_total_def generate_all_def resource_searches_def
      asp_monitoring_def logs_append_def keep_last_logs_def last_entries_def Let_def
      no_regions_def empty_results_def sample_tick_def ai_boring_search_for_gold_def
      ai_boring_search_for_oil_def quiet_nuclear_protocol_scan_def random_choice_def
      nuclear_choices_def py_round_def round_half_even_def)

section \<open>Accumulators and panel health\<close>

text \<open>
  C1. Take a state whose solar nodes have a panel health of at least 80 (a new node has
  100), intervals that are not negative and draws the library can give. After any
  number of calls of \<^verbatim>\<open>run_simulation_step\<close>, each on the state the call before
  returned, the total energy, the gold, the oil and the nuclear signatures are at least
  what they were, and every solar node has a panel health that is at most what it was
  and at least 80. One call is the run of length one.
\<close>

theorem accumulators_monotone:
  assumes regions: "GRID_NODES cfg \<noteq> []"
    and interval: "0 \<le> SIM_INTERVAL_SECONDS cfg"
    and valid: "\<forall>(t, dt, rnd)\<in>set calls. 0 \<le> dt \<and> valid_tick_random rnd"
    and healthy: "\<forall>node\<in>set (nodes_before cfg cr). 80 \<le> panel_health node"
  shows "\<exists>cr'. run_steps cfg calls cr = Inr cr' \<and>
     total_before cr \<le> total_before cr' \<and>
     value_or (gold cr) 0 \<le> value_or (gold cr') 0 \<and>
     value_or (oil cr) 0 \<le> value_or (oil cr') 0 \<and>
     value_or (nuclear_signatures cr) 0 \<le> value_or (nuclear_signatures cr') 0 \<and>
     length (nodes_before cfg cr') = length (nodes_before cfg cr) \<and>
     (\<forall>i<length (nodes_before cfg cr).
        panel_health (nodes_before cfg cr' ! i) \<le> panel_health (nodes_before cfg cr ! i) \<and>
        80 \<le> panel_health (nodes_before cfg cr' ! i))"
  using valid healthy
proof (induction calls arbitrary: cr)
  case Nil
  then show ?case
    by (simp add: all_set_conv_all_nth)
next
  case (Cons call calls)
  obtain t dt rnd where call: "call = (t, dt, rnd)"
    by (cases call)
  from Cons.prems(1) call have now: "0 \<le> dt" "valid_tick_random rnd"
    and later: "\<forall>(t, dt, rnd)\<in>set calls. 0 \<le> dt \<and> valid_tick_random rnd"
    by simp_all
  from step_monotone[OF regions interval now Cons.prems(2), of t] obtain mid where
    mid: "run_simulation_step cfg cr t dt rnd = Inr mid"
    and m1: "total_before cr \<le> total_before mid"
      "value_or (gold cr) 0 \<le> value_or (gold mid) 0"
      "value_or (oil cr) 0 \<le> value_or (oil mid) 0"
      "value_or (nuclear_signatures cr) 0 \<le> value_or (nuclear_signatures mid) 0"
    and mlen: "length (nodes_before cfg mid) = length (nodes_before cfg cr)"
    and mh: "\<forall>i<length (nodes_before cfg cr).
        panel_health (nodes_before cfg mid ! i) \<le> panel_health (nodes_before cfg cr ! i) \<and>
        80 \<le> panel_health (nodes_before cfg mid ! i)"
    by blast
  from mh mlen have "\<forall>node\<in>set (nodes_before cfg mid). 80 \<le> panel_health node"
    by (simp add: all_set_conv_all_nth)
  from Cons.IH[OF later this] obtain cr' where
    cr': "run_steps cfg calls mid = Inr cr'"
    and c1: "total_before mid \<le> total_before cr'"
      "value_or (gold mid) 0 \<le> value_or (gold cr') 0"
      "value_or (oil mid) 0 \<le> value_or (oil cr') 0"
      "value_or (nuclear_signatures mid) 0 \<le> value_or (nuclear_signatures cr') 0"
    and clen: "length (nodes_before cfg cr') = length (nodes_before cfg mid)"
    and ch: "\<forall>i<length (nodes_before cfg mid).
        panel_health (nodes_before cfg cr' ! i) \<le> panel_health (nodes_before cfg mid ! i) \<and>
        80 \<le> panel_health (nodes_before cfg cr' ! i)"
    by blast
  have run: "run_steps cfg (call # calls) cr = Inr cr'"
    by (simp add: call mid cr')
  have health: "panel_health (nodes_before cfg cr' ! i) \<le> panel_health (nodes_before cfg cr ! i) \<and>
      80 \<le> panel_health (nodes_before cfg cr' ! i)" if "i < length (nodes_before cfg cr)" for i
    using that mh ch mlen by (metis order_trans)
  from run m1 c1 mlen clen health show ?case
    by (intro exI[of _ cr']) (auto intro: order_trans)
qed

theorem accumulators_monotone_witness:
  "\<exists>cr'. run_steps module_config [(0, 1, sample_tick), (1, 1, alert_tick)] empty_results =
       Inr cr' \<and>
     total_before empty_results \<le> total_before cr' \<and>
     value_or (gold empty_results) 0 \<le> value_or (gold cr') 0 \<and>
     value_or (oil empty_results) 0 \<le> value_or (oil cr') 0 \<and>
     value_or (nuclear_signatures empty_results) 0 \<le> value_or (nuclear_signatures cr') 0 \<and>
     length (nodes_before module_config cr') = 3 \<and>
     panel_health (nodes_before module_config cr' ! 0) \<le> 100 \<and>
     80 \<le> panel_health (nodes_before module_config cr' ! 0)"
proof -
  have regions: "GRID_NODES module_config \<noteq> []"
    and interval: "0 \<le> SIM_INTERVAL_SECONDS module_config"
    by (simp_all add: module_config_def)
  have valid: "\<forall>(t, dt, rnd)\<in>set [(0, 1, sample_tick), (1, 1, alert_tick)].
      (0::real) \<le> dt \<and> valid_tick_random rnd"
    by (simp add: valid_sample_tick valid_alert_tick)
  have nodes: "nodes_before module_config empty_results =
      map new_SolarNodeController [''RegionAlpha'', ''RegionBeta'', ''RegionGamma'']"
    by (simp add: nodes_before_def empty_results_def module_config_def)
  have healthy: "\<forall>node\<in>set (nodes_before module_config empty_results).
      80 \<le> panel_health node"
    by (simp add: nodes new_SolarNodeController_def)
  have first: "panel_health (nodes_before module_config empty_results ! 0) = 100"
    "length (nodes_before module_config empty_results) = 3"
    by (simp_all add: nodes new_SolarNodeController_def)
  from accumulators_monotone [OF regions interval valid healthy] obtain cr' where
    run: "run_steps module_config [(0, 1, sample_tick), (1, 1, alert_tick)] empty_results =
      Inr cr'"
    and grown: "total_before empty_results \<le> total_before cr'"
      "value_or (gold empty_results) 0 \<le> value_or (gold cr') 0"
      "value_or (oil empty_results) 0 \<le> value_or (oil cr') 0"
      "value_or (nuclear_signatures empty_results) 0 \<le> value_or (nuclear_signatures cr') 0"
    and len: "length (nodes_before module_config cr') =
      length (nodes_before module_config empty_results)"
    and health: "\<forall>i<length (nodes_before module_config empty_results).
      panel_health (nodes_before module_config cr' ! i) \<le>
        panel_health (nodes_before module_config empty_results ! i) \<and>
      80 \<le> panel_health (nodes_before module_config cr' ! i)"
    by blast
  from len first(2) have three: "length (nodes_before module_config cr') = 3"
    by simp
  from health first have zero: "panel_health (nodes_before module_config cr' ! 0) \<le> 100"
    "80 \<le> panel_health (nodes_before module_config cr' ! 0)"
    by (metis zero_less_numeral)+
  from run grown three zero show ?thesis
    by blast
qed

section \<open>Ten ticks of the driver\<close>

text \<open>
  C5. Start from the dictionary \<^verbatim>\<open>streamlit_app.py\<close> builds for the three regions
  of the module, with its interval of one second, and run the loop ten times, with any
  draws the library can give. No iteration raises; the step count is 10, the total
  energy is positive, and the list of logs has \<open>min(50, n)\<close> lines, where \<open>n\<close> is the
  sum over the ten ticks of the 16 or 17 lines of each: that is 50 lines.
\<close>

theorem ten_ticks_from_fresh_state:
  assumes "length ticks = 10" and "\<forall>rnd\<in>set ticks. valid_tick_random rnd"
  shows "\<exists>st total lines.
     run_ticks module_config ticks (initial_sim_results module_config now) = Inr st \<and>
     sim_step_count st = Some 10 \<and>
     energy st = Some total \<and> 0 < total_mwh total \<and>
     logs st = Some lines \<and>
     length lines = min 50 (sum_list (map (lines_per_tick 3) ticks)) \<and>
     length lines = 50"
proof -
  let ?st = "initial_sim_results module_config now"
  have regions: "GRID_NODES module_config \<noteq> []" "length (GRID_NODES module_config) = 3"
    and interval: "0 < SIM_INTERVAL_SECONDS module_config"
    by (simp_all add: module_config_def)
  have keys: "current_sim_time ?st \<noteq> None" "sim_step_count ?st = Some 0"
    and short: "length (value_or (logs ?st) []) \<le> 50"
    and none: "value_or (logs ?st) [] = []" "total_before ?st = 0"
    by (simp_all add: initial_sim_results_def total_before_def)
  have nodes: "length (distribution_before module_config ?st) = length (GRID_NODES module_config)"
    "nodes_before module_config ?st \<noteq> []"
    by (simp_all add: distribution_before_def nodes_before_def initial_sim_results_def
        module_config_def)
  from assms(1) have some: "ticks \<noteq> []"
    by auto
  from run_ticks_result[OF regions(1) interval assms(2) keys nodes short] some obtain st where
    st: "run_ticks module_config ticks ?st = Inr st"
    and count: "sim_step_count st = Some (0 + int (length ticks))"
    and grow: "total_before ?st < total_before st" "energy st \<noteq> None" "logs st \<noteq> None"
    and len: "length (value_or (logs st) []) =
       min 50 (length (value_or (logs ?st) []) + sum_list (map (lines_per_tick 3) ticks))"
    unfolding regions(2) by blast
  from grow(2,3) obtain total lines where tl: "energy st = Some total" "logs st = Some lines"
    by blast
  from grow(1) have "0 < total_before st"
    by (simp only: none(2))
  with tl(1) have pos: "0 < total_mwh total"
    by (simp add: total_before_def)
  from len tl(2) have l1: "length lines = min 50 (sum_list (map (lines_per_tick 3) ticks))"
    by (simp add: none)
  from sum_lines_least[of 3 ticks] assms(1) have "160 \<le> sum_list (map (lines_per_tick 3) ticks)"
    by simp
  with l1 have l2: "length lines = 50"
    by simp
  from count assms(1) have c: "sim_step_count st = Some 10"
    by simp
  from st c tl pos l1 l2 show ?thesis
    by blast
qed

theorem ten_ticks_from_fresh_state_witness:
  "\<exists>st total lines.
     run_ticks module_config (replicate 10 sample_tick) (initial_sim_results module_config 0) =
       Inr st \<and>
     sim_step_count st = Some 10 \<and>
     energy st = Some total \<and> 0 < total_mwh total \<and>
     logs st = Some lines \<and>
     length lines = min 50 (sum_list (map (lines_per_tick 3) (replicate 10 sample_tick))) \<and>
     length lines = 50"
proof -
  have len: "length (replicate 10 sample_tick) = 10"
    by simp
  have valid: "\<forall>rnd\<in>set (replicate 10 sample_tick). valid_tick_random rnd"
    by (simp add: valid_sample_tick)
  from ten_ticks_from_fresh_state [OF len valid, of 0] show ?thesis .
qed

end
